theory Spec2Isabelle
  imports Main "HOL-Library.Char_ord" "HOL-Library.List_Lexorder" "HOL-Library.FSet"
    "HOL-Library.AList"
begin

section \<open>Python values and exceptions\<close>

text \<open>
  The exceptions that \<^verbatim>\<open>falcano/attributes.py\<close> raises, or that the builtins it calls
  raise on the inputs modelled here.
\<close>

datatype error =
    ValueError
  | TypeError
  | AttributeError
  | AssertionError
  | KeyError
  | IndexError
  | StopIteration

text \<open>
  Native Python values. A \<open>dict\<close> is an association list in insertion order with string
  keys. \<open>PySet\<close> is a set of strings (the only element type the module declares,
  \<^verbatim>\<open>Attribute[Set[Text]]\<close>). \<open>PyMap c kw vs\<close> is a \<^verbatim>\<open>MapAttribute\<close> instance in
  data mode: the name of its class, its \<^verbatim>\<open>attribute_kwargs\<close> and its
  \<^verbatim>\<open>attribute_values\<close>. \<open>PyCallable v\<close> is a callable object that takes no argument
  and returns \<open>v\<close>.
\<close>

datatype pyval =
    PyNone
  | PyBool bool
  | PyInt int
  | PyStr string
  | PyList "pyval list"
  | PySet "string fset"
  | PyDict "(string \<times> pyval) list"
  | PyMap string "(string \<times> pyval) list" "(string \<times> pyval) list"
  | PyCallable pyval

text \<open>Truth value testing (\<^verbatim>\<open>if value:\<close>, \<^verbatim>\<open>not value\<close>). \<^verbatim>\<open>MapAttribute\<close> defines neither
  \<^verbatim>\<open>__bool__\<close> nor \<^verbatim>\<open>__len__\<close>, so its instances are true.\<close>

fun truthy :: "pyval \<Rightarrow> bool" where
  "truthy PyNone = False"
| "truthy (PyBool b) = b"
| "truthy (PyInt n) = (n \<noteq> 0)"
| "truthy (PyStr s) = (s \<noteq> [])"
| "truthy (PyList xs) = (xs \<noteq> [])"
| "truthy (PySet S) = (S \<noteq> {||})"
| "truthy (PyDict kvs) = (kvs \<noteq> [])"
| "truthy (PyMap c kw vs) = True"
| "truthy (PyCallable v) = True"

text \<open>Truth value of an \<^verbatim>\<open>Optional[str]\<close>: \<^verbatim>\<open>None\<close> and the empty string are false.\<close>

fun truthy_str :: "string option \<Rightarrow> bool" where
  "truthy_str None = False"
| "truthy_str (Some s) = (s \<noteq> [])"

text \<open>
  \<^verbatim>\<open>str(value)\<close> and the f-string conversion \<^verbatim>\<open>f'{value}'\<close>: a \<open>str\<close> is itself; the
  builtin's rendering of any other object is the parameter \<open>str_of\<close>.
\<close>

fun py_str :: "(pyval \<Rightarrow> string) \<Rightarrow> pyval \<Rightarrow> string" where
  "py_str str_of (PyStr s) = s"
| "py_str str_of v = str_of v"

section \<open>Attribute and UnicodeAttribute\<close>

text \<open>The keyword arguments of \<^verbatim>\<open>Attribute.__init__\<close>, and the instance state it sets.
  The path is a list whose last element is the attribute's name, \<^verbatim>\<open>None\<close> until the
  attribute is named.\<close>

record attribute_kwargs =
  kw_hash_key :: bool
  kw_range_key :: bool
  kw_null :: "bool option"
  kw_default :: pyval
  kw_default_for_new :: pyval
  kw_attr_name :: "string option"

record attr_state =
  default :: pyval
  default_for_new :: pyval
  null :: bool
  is_hash_key :: bool
  is_range_key :: bool
  attr_path :: "string option list"

text \<open>
  \<^verbatim>\<open>
  def __init__(self, hash_key=False, range_key=False, null=None, default=None,
               default_for_new=None, attr_name=None):
      if default and default_for_new:
          raise ValueError(
              "An attribute cannot have both default and default_for_new parameters")
      self.default = default
      self.default_for_new = default_for_new
      if null is not None:
          self.null = null
      self.is_hash_key = hash_key
      self.is_range_key = range_key
      self.attr_path = [attr_name]
  \<close>
  \<open>class_null\<close> is the class attribute \<^verbatim>\<open>null\<close> that an instance without its own reads:
  \<^verbatim>\<open>True\<close> for \<^verbatim>\<open>UnicodeSetAttribute\<close>, \<^verbatim>\<open>False\<close> for the other classes.
\<close>

definition no_kwargs :: attribute_kwargs where
  "no_kwargs = \<lparr>kw_hash_key = False, kw_range_key = False, kw_null = None,
                 kw_default = PyNone, kw_default_for_new = PyNone, kw_attr_name = None\<rparr>"

definition Attribute_init :: "bool \<Rightarrow> attribute_kwargs \<Rightarrow> error + attr_state" where
  "Attribute_init class_null kw =
     (if truthy (kw_default kw) \<and> truthy (kw_default_for_new kw) then Inl ValueError
      else Inr \<lparr>default = kw_default kw, default_for_new = kw_default_for_new kw,
                 null = (case kw_null kw of Some b \<Rightarrow> b | None \<Rightarrow> class_null),
                 is_hash_key = kw_hash_key kw, is_range_key = kw_range_key kw,
                 attr_path = [kw_attr_name kw]\<rparr>)"

text \<open>\<^verbatim>\<open>Attribute.serialize\<close> and \<^verbatim>\<open>Attribute.deserialize\<close> return the value unchanged.\<close>

definition Attribute_serialize :: "pyval \<Rightarrow> pyval" where
  "Attribute_serialize v = v"

definition Attribute_deserialize :: "pyval \<Rightarrow> pyval" where
  "Attribute_deserialize v = v"

text \<open>
  \<^verbatim>\<open>
  def serialize(self, value):
      if not value:
          return None
      if isinstance(value, str):
          return value
      return str(value)
  \<close>
\<close>

definition UnicodeAttribute_serialize :: "(pyval \<Rightarrow> string) \<Rightarrow> pyval \<Rightarrow> pyval" where
  "UnicodeAttribute_serialize str_of v =
     (if \<not> truthy v then PyNone
      else (case v of PyStr s \<Rightarrow> PyStr s | _ \<Rightarrow> PyStr (str_of v)))"

section \<open>KeyAttribute\<close>

text \<open>
  \<^verbatim>\<open>str.split(sep)\<close> for a non-empty separator: the segments between the leftmost,
  non-overlapping occurrences of \<open>sep\<close>. \<open>split_from sep acc s\<close> scans \<open>s\<close> with the
  segment read so far in \<open>acc\<close>. An empty separator raises \<^verbatim>\<open>ValueError\<close>.
\<close>

function split_from :: "string \<Rightarrow> string \<Rightarrow> string \<Rightarrow> string list" where
  "split_from sep acc [] = [acc]"
| "split_from sep acc (c # cs) =
     (if sep \<noteq> [] \<and> take (length sep) (c # cs) = sep
      then acc # split_from sep [] (drop (length sep) (c # cs))
      else split_from sep (acc @ [c]) cs)"
  by pat_completeness auto
termination
  by (relation "measure (\<lambda>(sep, acc, s). length s)") auto

definition py_split :: "string \<Rightarrow> string \<Rightarrow> error + string list" where
  "py_split s sep = (if sep = [] then Inl ValueError else Inr (split_from sep [] s))"

text \<open>List indexing \<^verbatim>\<open>xs[i]\<close>: a negative index counts from the end, an index out of
  range raises \<^verbatim>\<open>IndexError\<close>.\<close>

definition py_index :: "'a list \<Rightarrow> int \<Rightarrow> error + 'a" where
  "py_index xs i =
     (if 0 \<le> i \<and> i < int (length xs) then Inr (xs ! nat i)
      else if i < 0 \<and> - int (length xs) \<le> i then Inr (xs ! nat (int (length xs) + i))
      else Inl IndexError)"

text \<open>\<^verbatim>\<open>str.join\<close>.\<close>

fun join :: "string \<Rightarrow> string list \<Rightarrow> string" where
  "join sep [] = []"
| "join sep [x] = x"
| "join sep (x # y # ys) = x @ sep @ join sep (y # ys)"

text \<open>The state that \<^verbatim>\<open>KeyAttribute.__init__\<close> sets and that \<^verbatim>\<open>serialize\<close> and
  \<^verbatim>\<open>deserialize\<close> read.\<close>

record key_attribute = attr_state +
  suffix :: "string option"
  prefix :: "string option"
  fixed_value :: "string option"
  separator :: string

text \<open>
  \<^verbatim>\<open>
  def __init__(self, prefix=None, suffix=None, value=None,
               hash_key=False, range_key=False, separator=None):
      self.suffix = suffix
      self.prefix = prefix
      self.fixed_value = value
      self.separator = separator if separator else '#'
      if not self.suffix and not self.prefix and not self.fixed_value:
          raise AttributeError('You must set either suffix, prefix, or value')
      if not hash_key and not range_key:
          raise AttributeError('This must be either a hash_key or range_key')
      super().__init__(hash_key=hash_key, range_key=range_key)
  \<close>
\<close>

definition KeyAttribute_init ::
  "string option \<Rightarrow> string option \<Rightarrow> string option \<Rightarrow> bool \<Rightarrow> bool \<Rightarrow> string option
     \<Rightarrow> error + key_attribute" where
  "KeyAttribute_init prefix' suffix' value hash_key range_key separator' =
     (let sep = (case separator' of None \<Rightarrow> ''#''
                 | Some s \<Rightarrow> if s \<noteq> [] then s else ''#'')
      in if \<not> truthy_str suffix' \<and> \<not> truthy_str prefix' \<and> \<not> truthy_str value
           then Inl AttributeError
         else if \<not> hash_key \<and> \<not> range_key then Inl AttributeError
         else (case Attribute_init False
                      (no_kwargs\<lparr>kw_hash_key := hash_key, kw_range_key := range_key\<rparr>) of
                 Inl e \<Rightarrow> Inl e
               | Inr st \<Rightarrow>
                   Inr (attr_state.extend st
                          (key_attribute.fields suffix' prefix' value sep))))"

text \<open>
  \<^verbatim>\<open>
  def serialize(self, value):
      if not value and self.fixed_value:
          value = self.fixed_value
      value = (
          f'{f"{self.prefix}{self.separator}" if self.prefix else ""}'
          f'{value}'
          f'{f"{self.separator}{self.suffix}" if self.suffix else ""}'
      )
      return super().serialize(value)
  \<close>
\<close>

definition KeyAttribute_serialize ::
  "(pyval \<Rightarrow> string) \<Rightarrow> key_attribute \<Rightarrow> pyval \<Rightarrow> pyval" where
  "KeyAttribute_serialize str_of k value =
     (let value1 = (case fixed_value k of
                      Some f \<Rightarrow> if \<not> truthy value \<and> f \<noteq> [] then PyStr f else value
                    | None \<Rightarrow> value);
          value2 =
            (case prefix k of
               Some p \<Rightarrow> if p \<noteq> [] then p @ separator k else []
             | None \<Rightarrow> [])
            @ py_str str_of value1
            @ (case suffix k of
                 Some s \<Rightarrow> if s \<noteq> [] then separator k @ s else []
               | None \<Rightarrow> [])
      in UnicodeAttribute_serialize str_of (PyStr value2))"

text \<open>
  \<^verbatim>\<open>
  def deserialize(self, value):
      value = value.split(self.separator)[-1 if self.prefix else 0]
      return super().deserialize(value)
  \<close>
  Only a \<open>str\<close> has \<^verbatim>\<open>split\<close> among the values modelled.
\<close>

definition KeyAttribute_deserialize :: "key_attribute \<Rightarrow> pyval \<Rightarrow> error + pyval" where
  "KeyAttribute_deserialize k value =
     (case value of
        PyStr s \<Rightarrow>
          (case py_split s (separator k) of
             Inl e \<Rightarrow> Inl e
           | Inr segs \<Rightarrow>
               (case py_index segs (if truthy_str (prefix k) then - 1 else 0) of
                  Inl e \<Rightarrow> Inl e
                | Inr seg \<Rightarrow> Inr (Attribute_deserialize (PyStr seg))))
      | _ \<Rightarrow> Inl AttributeError)"

subsection \<open>The composite key as the specification words it\<close>

text \<open>A part is configured when it is neither \<^verbatim>\<open>None\<close> nor empty; an absent part
  contributes nothing, not even its separator.\<close>

fun configured_part :: "string option \<Rightarrow> string list" where
  "configured_part None = []"
| "configured_part (Some s) = (if s = [] then [] else [s])"

definition spec_key_serialize ::
  "(pyval \<Rightarrow> string) \<Rightarrow> key_attribute \<Rightarrow> pyval \<Rightarrow> pyval" where
  "spec_key_serialize str_of k value =
     (let dynamic = (if \<not> truthy value \<and> truthy_str (fixed_value k)
                     then configured_part (fixed_value k) else [py_str str_of value])
      in UnicodeAttribute_serialize str_of
           (PyStr (join (separator k)
              (configured_part (prefix k) @ dynamic @ configured_part (suffix k)))))"

definition spec_key_deserialize :: "key_attribute \<Rightarrow> string \<Rightarrow> pyval" where
  "spec_key_deserialize k s =
     (let segs = split_from (separator k) [] s
      in Attribute_deserialize (PyStr (if truthy_str (prefix k) then last segs else hd segs)))"

text \<open>An example key, \<^verbatim>\<open>KeyAttribute(prefix='user', hash_key=True)\<close>.\<close>

definition user_key :: key_attribute where
  "user_key = \<lparr>default = PyNone, default_for_new = PyNone, null = False,
                is_hash_key = True, is_range_key = False, attr_path = [None],
                suffix = None, prefix = Some ''user'', fixed_value = None,
                separator = ''#''\<rparr>"

section \<open>Scalar attribute types\<close>

text \<open>
  \<^verbatim>\<open>
  class NumberAttribute(Attribute[float]):
      def serialize(self, value):
          '''Encode numbers as JSON'''
          return value
      def deserialize(self, value):
          '''Decode numbers from JSON'''
          return json.loads(value)
  \<close>
  \<^verbatim>\<open>json.loads\<close> raises \<^verbatim>\<open>TypeError\<close> on an object that is not text; its parser of a
  text is the parameter \<open>json_loads\<close>.
\<close>

definition NumberAttribute_serialize :: "pyval \<Rightarrow> pyval" where
  "NumberAttribute_serialize value = value"

definition NumberAttribute_deserialize ::
  "(string \<Rightarrow> error + pyval) \<Rightarrow> pyval \<Rightarrow> error + pyval" where
  "NumberAttribute_deserialize json_loads value =
     (case value of PyStr s \<Rightarrow> json_loads s | _ \<Rightarrow> Inl TypeError)"

text \<open>
  \<^verbatim>\<open>
  class BooleanAttribute(Attribute[bool]):
      def serialize(self, value):
          if value is None:
              return None
          if value:
              return True
          return False
      def deserialize(self, value):
          return bool(value)
  \<close>
\<close>

definition BooleanAttribute_serialize :: "pyval \<Rightarrow> pyval" where
  "BooleanAttribute_serialize value =
     (if value = PyNone then PyNone else if truthy value then PyBool True else PyBool False)"

definition BooleanAttribute_deserialize :: "pyval \<Rightarrow> pyval" where
  "BooleanAttribute_deserialize value = PyBool (truthy value)"

text \<open>\<^verbatim>\<open>NullAttribute\<close>: \<^verbatim>\<open>serialize\<close> returns \<^verbatim>\<open>True\<close>, \<^verbatim>\<open>deserialize\<close> returns
  \<^verbatim>\<open>None\<close>. \<^verbatim>\<open>ListAttribute\<close>: both return their argument.\<close>

definition NullAttribute_serialize :: "pyval \<Rightarrow> pyval" where
  "NullAttribute_serialize value = PyBool True"

definition NullAttribute_deserialize :: "pyval \<Rightarrow> pyval" where
  "NullAttribute_deserialize value = PyNone"

definition ListAttribute_serialize :: "pyval \<Rightarrow> pyval" where
  "ListAttribute_serialize values = values"

definition ListAttribute_deserialize :: "pyval \<Rightarrow> pyval" where
  "ListAttribute_deserialize values = values"

section \<open>Set attributes\<close>

text \<open>
  The value handed to a set attribute's \<^verbatim>\<open>serialize\<close>: \<^verbatim>\<open>None\<close>, an object that is
  not iterable, or a collection of strings given by its elements in iteration order.
  The iteration order of a Python set is arbitrary: a set is any duplicate-free list
  of its elements.
\<close>

datatype set_value = NoValue | NotIterable pyval | Elements "string list"

text \<open>A list comprehension whose element expression may raise.\<close>

fun traverse :: "('a \<Rightarrow> error + 'b) \<Rightarrow> 'a list \<Rightarrow> error + 'b list" where
  "traverse f [] = Inr []"
| "traverse f (x # xs) =
     (case f x of
        Inl e \<Rightarrow> Inl e
      | Inr y \<Rightarrow> (case traverse f xs of Inl e \<Rightarrow> Inl e | Inr ys \<Rightarrow> Inr (y # ys)))"

text \<open>
  \<^verbatim>\<open>
  class SetMixin():
      def serialize(self, value):
          if value is not None:
              try:
                  iter(value)
              except TypeError:
                  value = [value]
              if value:
                  return [json.dumps(val) for val in sorted(value)]
          return None
  \<close>
  \<^verbatim>\<open>json.dumps\<close> is the parameter \<open>json_dumps\<close>; \<^verbatim>\<open>sorted\<close> on strings is the
  lexicographic order of their characters.
\<close>

definition SetMixin_serialize ::
  "(pyval \<Rightarrow> error + string) \<Rightarrow> set_value \<Rightarrow> error + pyval" where
  "SetMixin_serialize json_dumps value =
     (case value of
        NoValue \<Rightarrow> Inr PyNone
      | NotIterable v \<Rightarrow>
          (case traverse json_dumps [v] of
             Inl e \<Rightarrow> Inl e
           | Inr ys \<Rightarrow> Inr (PyList (map PyStr ys)))
      | Elements xs \<Rightarrow>
          if xs \<noteq> [] then
            (case traverse json_dumps (map PyStr (sort xs)) of
               Inl e \<Rightarrow> Inl e
             | Inr ys \<Rightarrow> Inr (PyList (map PyStr ys)))
          else Inr PyNone)"

text \<open>
  \<^verbatim>\<open>
  class UnicodeSetAttribute(SetMixin, Attribute[Set[Text]]):
      def element_serialize(self, value):
          if isinstance(value, str):
              return value
          return str(value)
      def serialize(self, value):
          if value is not None:
              try:
                  iter(value)
              except TypeError:
                  value = [value]
              if value:
                  return set(self.element_serialize(val) for val in sorted(value))
          return None
  \<close>
\<close>

definition element_serialize :: "(pyval \<Rightarrow> string) \<Rightarrow> pyval \<Rightarrow> string" where
  "element_serialize str_of value = (case value of PyStr s \<Rightarrow> s | _ \<Rightarrow> str_of value)"

definition UnicodeSetAttribute_serialize :: "(pyval \<Rightarrow> string) \<Rightarrow> set_value \<Rightarrow> pyval" where
  "UnicodeSetAttribute_serialize str_of value =
     (case value of
        NoValue \<Rightarrow> PyNone
      | NotIterable v \<Rightarrow> PySet (fset_of_list (map (element_serialize str_of) [v]))
      | Elements xs \<Rightarrow>
          if xs \<noteq> [] then
            PySet (fset_of_list (map (element_serialize str_of) (map PyStr (sort xs))))
          else PyNone)"

text \<open>The list of JSON-encoded elements in sorted order, as the specification words the
  serialized form of a set with the elements \<open>S\<close>.\<close>

definition spec_set_wire :: "(pyval \<Rightarrow> error + string) \<Rightarrow> string set \<Rightarrow> error + pyval" where
  "spec_set_wire json_dumps S =
     (case traverse json_dumps (map PyStr (sorted_list_of_set S)) of
        Inl e \<Rightarrow> Inl e
      | Inr ys \<Rightarrow> Inr (PyList (map PyStr ys)))"

section \<open>Declared attributes and classes\<close>

text \<open>The attribute classes of the module that hold no clock or calendar value
  (\<^verbatim>\<open>TTLAttribute\<close> and \<^verbatim>\<open>UTCDateTimeAttribute\<close> are left out), but
  \<^verbatim>\<open>MapAttribute\<close>, which follows.\<close>

datatype kind =
    UnicodeAttribute
  | UnicodeSetAttribute
  | NumberAttribute
  | BooleanAttribute
  | NullAttribute
  | ListAttribute

text \<open>
  An attribute object, as it is found among the members of a class.
  \<^item> \<open>Attr k st\<close>: an instance of the class \<open>k\<close> with the state \<open>st\<close>.
  \<^item> \<open>MapData c kw vs\<close>: an instance of the \<^verbatim>\<open>MapAttribute\<close> class \<open>c\<close> in data mode;
    its dictionary holds \<^verbatim>\<open>attribute_kwargs\<close> \<open>kw\<close> and \<^verbatim>\<open>attribute_values\<close> \<open>vs\<close>.
  \<^item> \<open>MapSchema c st locals\<close>: such an instance after \<^verbatim>\<open>make_attribute\<close>; its
    dictionary holds the attribute state \<open>st\<close> and the local copies of the attributes
    of \<open>c\<close>, each under its name. In the code the state and the local copies share
    the one dictionary of the instance, and a field of \<open>c\<close> is a descriptor of the class
    \<open>c\<close>, found before any member of \<^verbatim>\<open>Attribute\<close> or \<^verbatim>\<open>MapAttribute\<close> of the same
    name. The two parts are kept apart here, which is what the code does when no field of
    \<open>c\<close> bears the name of such a member: the fields are \<open>ordinary_class c\<close>, below.

  A class is its name, \<^verbatim>\<open>_attributes\<close> and \<^verbatim>\<open>_dynamo_to_python_attrs\<close>, both in
  insertion order. The class named \<^verbatim>\<open>MapAttribute\<close> is the raw one.
\<close>

datatype attribute =
    Attr kind attr_state
  | MapData pycls attribute_kwargs "(string \<times> pyval) list"
  | MapSchema pycls attr_state "(string \<times> attribute) list"
and pycls =
    PyClass (cls_name: string) (attributes: "(string \<times> attribute) list")
      (dynamo_to_python_attrs: "(string \<times> string) list")

definition MapAttribute_class :: pycls where
  "MapAttribute_class = PyClass ''MapAttribute'' [] []"

text \<open>\<^verbatim>\<open>return cls == MapAttribute\<close>. A class stands for the class object of its name:
  two classes of one name are not told apart, and no other class is named
  \<^verbatim>\<open>MapAttribute\<close>.\<close>

definition is_raw :: "pycls \<Rightarrow> bool" where
  "is_raw cls = (cls_name cls = ''MapAttribute'')"

fun isinstance_MapAttribute :: "attribute \<Rightarrow> bool" where
  "isinstance_MapAttribute (Attr k st) = False"
| "isinstance_MapAttribute (MapData c kw vs) = True"
| "isinstance_MapAttribute (MapSchema c st locals) = True"

text \<open>\<^verbatim>\<open>MapAttribute.is_attribute_container\<close>:
  \<^verbatim>\<open>return 'attribute_values' in self.__dict__\<close>. The other attribute classes have no
  such method; they are asked only behind \<^verbatim>\<open>isinstance(o, MapAttribute)\<close>.\<close>

fun is_attribute_container :: "attribute \<Rightarrow> bool" where
  "is_attribute_container (MapData c kw vs) = True"
| "is_attribute_container (MapSchema c st locals) = False"
| "is_attribute_container (Attr k st) = False"

text \<open>
  The property \<^verbatim>\<open>attr_name\<close>: the getter is \<^verbatim>\<open>self.attr_path[-1]\<close>, the setter
  \<^verbatim>\<open>self.attr_path[-1] = value\<close>. An instance in data mode has no \<^verbatim>\<open>attr_path\<close>:
  \<^verbatim>\<open>__getattr__\<close> raises \<^verbatim>\<open>AttributeError\<close>. On a converted node the property and
  \<^verbatim>\<open>attr_path\<close> are those of \<^verbatim>\<open>Attribute\<close> as long as the class of the node declares
  no field of these names (\<open>ordinary_class\<close>, below).
\<close>

definition state_attr_name :: "attr_state \<Rightarrow> error + string option" where
  "state_attr_name st = py_index (attr_path st) (- 1)"

definition state_set_attr_name :: "string \<Rightarrow> attr_state \<Rightarrow> error + attr_state" where
  "state_set_attr_name value st =
     (if attr_path st = [] then Inl IndexError
      else Inr (st\<lparr>attr_path := (attr_path st)[length (attr_path st) - 1 := Some value]\<rparr>))"

fun attr_name :: "attribute \<Rightarrow> error + string option" where
  "attr_name (Attr k st) = state_attr_name st"
| "attr_name (MapSchema c st locals) = state_attr_name st"
| "attr_name (MapData c kw vs) = Inl AttributeError"

fun set_attr_name :: "string \<Rightarrow> attribute \<Rightarrow> error + attribute" where
  "set_attr_name value (Attr k st) =
     (case state_set_attr_name value st of Inl e \<Rightarrow> Inl e | Inr st' \<Rightarrow> Inr (Attr k st'))"
| "set_attr_name value (MapSchema c st locals) =
     (case state_set_attr_name value st of
        Inl e \<Rightarrow> Inl e
      | Inr st' \<Rightarrow> Inr (MapSchema c st' locals))"
| "set_attr_name value (MapData c kw vs) = Inl AttributeError"

subsection \<open>Ordinary field names\<close>

text \<open>
  The public names that \<^verbatim>\<open>Attribute\<close>, \<^verbatim>\<open>AttributeContainer\<close> and \<^verbatim>\<open>MapAttribute\<close>
  define in their bodies or set on their instances. A field of a \<^verbatim>\<open>MapAttribute\<close> subclass
  with one of these names, or with a name that starts with an underscore (the private
  and the special names), takes the place of that member on every instance of the
  subclass: declared as \<^verbatim>\<open>attr_name = NumberAttribute()\<close>, say, it is what
  \<^verbatim>\<open>node.attr_name\<close> then returns, in place of the last segment of the path. The
  functions of this theory follow the code for classes whose fields, and the fields of
  the classes nested in them, have none of these names.
\<close>

definition machinery_names :: "string list" where
  "machinery_names =
     [''attr_type'', ''null'', ''default'', ''default_for_new'', ''is_hash_key'',
      ''is_range_key'', ''attr_path'', ''attr_name'', ''serialize'', ''deserialize'',
      ''get_value'', ''attr_fn'', ''between'', ''eq'', ''exists'', ''does_not_exist'',
      ''startswith'', ''append'', ''prepend'', ''set'', ''remove'', ''add'', ''delete'',
      ''attribute_values'', ''get_attributes'', ''attribute_args'', ''attribute_kwargs'',
      ''is_attribute_container'', ''make_attribute'', ''update_attribute_paths'',
      ''is_correctly_typed'', ''validate'', ''is_raw'', ''as_dict'']"

definition ordinary_name :: "string \<Rightarrow> bool" where
  "ordinary_name name = (name \<noteq> [] \<and> hd name \<noteq> CHR ''_'' \<and> name \<notin> set machinery_names)"

fun ordinary_attribute :: "attribute \<Rightarrow> bool"
  and ordinary_class :: "pycls \<Rightarrow> bool" where
  "ordinary_attribute (Attr k st) = True"
| "ordinary_attribute (MapData c kw vs) = ordinary_class c"
| "ordinary_attribute (MapSchema c st locals) =
     (ordinary_class c \<and> list_all (\<lambda>(name, a). ordinary_attribute a) locals)"
| "ordinary_class (PyClass cn attrs d2p) =
     list_all (\<lambda>(name, a). ordinary_name name \<and> ordinary_attribute a) attrs"

section \<open>Conversion of a nested node and type registration\<close>

text \<open>
  \<^verbatim>\<open>
  def make_attribute(self):
      if not self.is_attribute_container():
          # This instance has already been initialized by another AttributeContainer class.
          return False
      kwargs = self.attribute_kwargs
      del self.attribute_kwargs
      del self.attribute_values
      Attribute.__init__(self, **kwargs)
      for name, attr in self.get_attributes().items():
          self.__dict__[name] = deepcopy(attr)
      return True
  \<close>
  The result is the returned flag and the instance after the call. The assignments of
  \<^verbatim>\<open>Attribute.__init__\<close> reach the dictionary of the instance, where the copies are then
  stored beside them, for a class with ordinary fields; a field named as a part of
  the state would intercept the assignment.
\<close>

fun make_attribute :: "attribute \<Rightarrow> error + bool \<times> attribute" where
  "make_attribute (MapSchema c st locals) = Inr (False, MapSchema c st locals)"
| "make_attribute (MapData c kw vs) =
     (case Attribute_init False kw of
        Inl e \<Rightarrow> Inl e
      | Inr st \<Rightarrow> Inr (True, MapSchema c st (attributes c)))"
| "make_attribute (Attr k st) = Inl AttributeError"

text \<open>A list of results, up to the first exception.\<close>

fun collect :: "(error + 'a) list \<Rightarrow> error + 'a list" where
  "collect [] = Inr []"
| "collect (Inl e # rs) = Inl e"
| "collect (Inr x # rs) = (case collect rs of Inl e \<Rightarrow> Inl e | Inr xs \<Rightarrow> Inr (x # xs))"

text \<open>\<^verbatim>\<open>attr_path.insert(0, path_segment)\<close>\<close>

definition insert_segment :: "string \<Rightarrow> attr_state \<Rightarrow> attr_state" where
  "insert_segment path_segment st = st\<lparr>attr_path := Some path_segment # attr_path st\<rparr>"

text \<open>
  \<^verbatim>\<open>
  def update_attribute_paths(self, path_segment):
      if self.is_attribute_container():
          raise AssertionError(
              "MapAttribute.update_attribute_paths called before MapAttribute.make_attribute")
      for name in self.get_attributes().keys():
          local_attr = self.__dict__[name]
          local_attr.attr_path.insert(0, path_segment)
          if isinstance(local_attr, MapAttribute):
              local_attr.update_attribute_paths(path_segment)
  \<close>
  The names of a dictionary are distinct, so each local attribute is read once, before
  it is written; the loop is a map over the names, and the updated attributes are then
  stored under their names.
\<close>

function update_attribute_paths :: "string \<Rightarrow> attribute \<Rightarrow> error + attribute" where
  "update_attribute_paths path_segment (Attr k st) = Inl AttributeError"
| "update_attribute_paths path_segment (MapData c kw vs) = Inl AssertionError"
| "update_attribute_paths path_segment (MapSchema c st locals) =
     (case collect (map (\<lambda>name.
              case map_of locals name of
                None \<Rightarrow> Inl KeyError
              | Some (Attr k st') \<Rightarrow> Inr (name, Attr k (insert_segment path_segment st'))
              | Some (MapData c' kw vs) \<Rightarrow> Inl AttributeError
              | Some (MapSchema c' st' locals') \<Rightarrow>
                  (case update_attribute_paths path_segment
                          (MapSchema c' (insert_segment path_segment st') locals') of
                     Inl e \<Rightarrow> Inl e
                   | Inr local_attr \<Rightarrow> Inr (name, local_attr)))
            (map fst (attributes c))) of
        Inl e \<Rightarrow> Inl e
      | Inr updated \<Rightarrow>
          Inr (MapSchema c st (fold (\<lambda>(name, a). AList.update name a) updated locals)))"
  by pat_completeness auto
termination
proof (relation "measure (\<lambda>(seg, a). size a)", goal_cases)
  case 1
  show ?case by simp
next
  case (2 seg c st locals name local_attr c' st' locals')
  from 2 have "(name, MapSchema c' st' locals') \<in> set locals"
    by (auto dest: map_of_SomeD)
  then have "size_prod (\<lambda>x. 0) size (name, MapSchema c' st' locals')
      \<le> size_list (size_prod (\<lambda>x. 0) size) locals"
    by (rule size_list_estimation') simp
  then show ?case by simp
qed

text \<open>
  \<^verbatim>\<open>
  def _initialize_attributes(cls):
      cls._attributes = {}
      cls._dynamo_to_python_attrs = {}
      for name, attribute in getmembers(cls, lambda o: isinstance(o, Attribute)):
          initialized = False
          if isinstance(attribute, MapAttribute):
              initialized = attribute.make_attribute()
          cls._attributes[name] = attribute
          if attribute.attr_name is not None:
              cls._dynamo_to_python_attrs[attribute.attr_name] = name
          else:
              attribute.attr_name = name
          if initialized and isinstance(attribute, MapAttribute):
              attribute.update_attribute_paths(attribute.attr_name)
  \<close>
  \<open>initialize_member\<close> is one turn of the loop, on the two dictionaries of the class;
  the attribute is stored as the turn leaves it. The members are what
  \<^verbatim>\<open>getmembers\<close> returns: the attributes of the class body and of its bases, each
  a distinct object, sorted by name.
\<close>

definition initialize_member ::
  "string \<times> attribute \<Rightarrow> (string \<times> attribute) list \<times> (string \<times> string) list
     \<Rightarrow> error + (string \<times> attribute) list \<times> (string \<times> string) list" where
  "initialize_member member dicts =
     (case member of (name, attribute) \<Rightarrow>
      case dicts of (attrs, dynamo_to_python) \<Rightarrow>
      case (if isinstance_MapAttribute attribute then make_attribute attribute
            else Inr (False, attribute)) of
        Inl e \<Rightarrow> Inl e
      | Inr (initialized, attribute1) \<Rightarrow>
      case attr_name attribute1 of
        Inl e \<Rightarrow> Inl e
      | Inr wire \<Rightarrow>
      case (case wire of
              Some w \<Rightarrow> Inr (attribute1, AList.update w name dynamo_to_python, w)
            | None \<Rightarrow>
                (case set_attr_name name attribute1 of
                   Inl e \<Rightarrow> Inl e
                 | Inr a \<Rightarrow> Inr (a, dynamo_to_python, name))) of
        Inl e \<Rightarrow> Inl e
      | Inr (attribute2, dynamo_to_python', w) \<Rightarrow>
      case (if initialized \<and> isinstance_MapAttribute attribute2
            then update_attribute_paths w attribute2 else Inr attribute2) of
        Inl e \<Rightarrow> Inl e
      | Inr attribute3 \<Rightarrow> Inr (AList.update name attribute3 attrs, dynamo_to_python'))"

fun initialize_members ::
  "(string \<times> attribute) list \<Rightarrow> (string \<times> attribute) list \<times> (string \<times> string) list
     \<Rightarrow> error + (string \<times> attribute) list \<times> (string \<times> string) list" where
  "initialize_members [] dicts = Inr dicts"
| "initialize_members (member # members) dicts =
     (case initialize_member member dicts of
        Inl e \<Rightarrow> Inl e
      | Inr dicts' \<Rightarrow> initialize_members members dicts')"

definition initialize_attributes :: "string \<Rightarrow> (string \<times> attribute) list \<Rightarrow> error + pycls" where
  "initialize_attributes name members =
     (case initialize_members members ([], []) of
        Inl e \<Rightarrow> Inl e
      | Inr (attrs, dynamo_to_python) \<Rightarrow> Inr (PyClass name attrs dynamo_to_python))"

text \<open>
  What one turn of the loop does to the attribute, apart from the two writes into the
  dictionaries of the class: the conversion, the reading of \<^verbatim>\<open>attr_name\<close> or its
  assignment, and the update of the paths. The result is the attribute as the turn leaves
  it, with the wire name it had when the turn asked for it: \<open>None\<close> when it had none and
  received the name of the field, in which case the turn writes nothing into
  \<^verbatim>\<open>_dynamo_to_python_attrs\<close>. No step of a turn reads either dictionary.
\<close>

definition member_turn :: "string \<times> attribute \<Rightarrow> error + attribute \<times> string option" where
  "member_turn member =
     (case member of (name, attribute) \<Rightarrow>
      case (if isinstance_MapAttribute attribute then make_attribute attribute
            else Inr (False, attribute)) of
        Inl e \<Rightarrow> Inl e
      | Inr (initialized, attribute1) \<Rightarrow>
      case attr_name attribute1 of
        Inl e \<Rightarrow> Inl e
      | Inr wire \<Rightarrow>
      case (case wire of
              Some w \<Rightarrow> Inr (attribute1, w)
            | None \<Rightarrow>
                (case set_attr_name name attribute1 of
                   Inl e \<Rightarrow> Inl e
                 | Inr a \<Rightarrow> Inr (a, name))) of
        Inl e \<Rightarrow> Inl e
      | Inr (attribute2, w) \<Rightarrow>
      case (if initialized \<and> isinstance_MapAttribute attribute2
            then update_attribute_paths w attribute2 else Inr attribute2) of
        Inl e \<Rightarrow> Inl e
      | Inr attribute3 \<Rightarrow> Inr (attribute3, wire))"

text \<open>The writes \<^verbatim>\<open>cls._dynamo_to_python_attrs[attribute.attr_name] = name\<close> of the
  loop, in the order of the members, given the result of the turn of each member.\<close>

definition explicit_wire_names ::
  "(string \<times> attribute) list \<Rightarrow> (attribute \<times> string option) list \<Rightarrow> (string \<times> string) list" where
  "explicit_wire_names members results =
     concat (map (\<lambda>((name, a), (a', wire)). case wire of Some w \<Rightarrow> [(w, name)] | None \<Rightarrow> [])
               (zip members results))"

section \<open>Reading a nested attribute\<close>

text \<open>
  \<^verbatim>\<open>Attribute.__get__(self, instance, owner)\<close> when \<open>instance\<close> is a \<^verbatim>\<open>MapAttribute\<close>
  used as an attribute:
  \<^verbatim>\<open>
      if self._is_map_attribute_class_object(instance):
          attr_name = instance._dynamo_to_python_attrs.get(self.attr_name, self.attr_name)
          return instance.__dict__.get(attr_name, None) or self
  \<close>
  Attribute objects are true. \<open>getattr_schema\<close> is \<^verbatim>\<open>getattr(instance, name)\<close> on such
  an instance for the name of a field: the descriptor of the class under \<open>name\<close> is
  asked, and a name that the class does not declare ends in \<^verbatim>\<open>__getattr__\<close>, which
  raises \<^verbatim>\<open>AttributeError\<close>. \<open>getattr_class\<close> is \<^verbatim>\<open>getattr(cls, name)\<close>, where the
  descriptor returns itself. On an instance in data mode the first branch of
  \<^verbatim>\<open>__get__\<close> is not taken; it is not part of this function.
\<close>

fun Attribute_get_class_object :: "attribute \<Rightarrow> attribute \<Rightarrow> error + attribute" where
  "Attribute_get_class_object self (MapSchema c st locals) =
     (case attr_name self of
        Inl e \<Rightarrow> Inl e
      | Inr None \<Rightarrow> Inr self
      | Inr (Some w) \<Rightarrow>
          (case map_of locals
                  (case map_of (dynamo_to_python_attrs c) w of Some n \<Rightarrow> n | None \<Rightarrow> w) of
             Some local_attr \<Rightarrow> Inr local_attr
           | None \<Rightarrow> Inr self))"
| "Attribute_get_class_object self instance = Inl TypeError"

fun getattr_schema :: "attribute \<Rightarrow> string \<Rightarrow> error + attribute" where
  "getattr_schema (MapSchema c st locals) name =
     (case map_of (attributes c) name of
        Some descriptor \<Rightarrow> Attribute_get_class_object descriptor (MapSchema c st locals)
      | None \<Rightarrow> Inl AttributeError)"
| "getattr_schema instance name = Inl AttributeError"

definition getattr_class :: "pycls \<Rightarrow> string \<Rightarrow> error + attribute" where
  "getattr_class cls name =
     (case map_of (attributes cls) name of Some a \<Rightarrow> Inr a | None \<Rightarrow> Inl AttributeError)"

fun attribute_path :: "attribute \<Rightarrow> error + string option list" where
  "attribute_path (Attr k st) = Inr (attr_path st)"
| "attribute_path (MapSchema c st locals) = Inr (attr_path st)"
| "attribute_path (MapData c kw vs) = Inl AttributeError"

text \<open>The wire name of a field: the \<^verbatim>\<open>attr_name\<close> given at its declaration, or else
  the name of the field.\<close>

definition wire_name :: "attribute_kwargs \<Rightarrow> string \<Rightarrow> string" where
  "wire_name kw name = (case kw_attr_name kw of Some w \<Rightarrow> w | None \<Rightarrow> name)"

section \<open>Equality of containers\<close>

text \<open>
  \<^verbatim>\<open>__eq__\<close> and \<^verbatim>\<open>__ne__\<close> compare objects, not their contents, so objects are
  addressed by references here, \<^verbatim>\<open>is\<close> compares the references, and a heap gives the
  object behind a reference.
  \<^verbatim>\<open>AttributeContainer.__eq__\<close> is \<^verbatim>\<open>self is other\<close>, \<^verbatim>\<open>__ne__\<close> is
  \<^verbatim>\<open>self is not other\<close>. \<^verbatim>\<open>Attribute\<close> defines neither method (its own are
  commented out), so \<^verbatim>\<open>Attribute.__eq__\<close> is \<^verbatim>\<open>object.__eq__\<close>, the comparison by
  identity, and \<^verbatim>\<open>Attribute.__ne__\<close> its negation.
\<close>

type_synonym ref = nat

definition AttributeContainer_eq :: "ref \<Rightarrow> ref \<Rightarrow> bool" where
  "AttributeContainer_eq self other = (self = other)"

definition AttributeContainer_ne :: "ref \<Rightarrow> ref \<Rightarrow> bool" where
  "AttributeContainer_ne self other = (self \<noteq> other)"

definition Attribute_eq :: "ref \<Rightarrow> ref \<Rightarrow> bool" where
  "Attribute_eq self other = (self = other)"

definition Attribute_ne :: "ref \<Rightarrow> ref \<Rightarrow> bool" where
  "Attribute_ne self other = (\<not> Attribute_eq self other)"

text \<open>
  \<^verbatim>\<open>
  def __eq__(self, other):
      if self.is_attribute_container():
          return AttributeContainer.__eq__(self, other)
      return Attribute.__eq__(self, other)
  def __ne__(self, other):
      if self.is_attribute_container():
          return AttributeContainer.__ne__(self, other)
      return Attribute.__ne__(self, other)
  \<close>
\<close>

definition MapAttribute_eq :: "(ref \<Rightarrow> attribute) \<Rightarrow> ref \<Rightarrow> ref \<Rightarrow> bool" where
  "MapAttribute_eq heap self other =
     (if is_attribute_container (heap self) then AttributeContainer_eq self other
      else Attribute_eq self other)"

definition MapAttribute_ne :: "(ref \<Rightarrow> attribute) \<Rightarrow> ref \<Rightarrow> ref \<Rightarrow> bool" where
  "MapAttribute_ne heap self other =
     (if is_attribute_container (heap self) then AttributeContainer_ne self other
      else Attribute_ne self other)"

section \<open>Example declarations\<close>

text \<open>The state of an attribute declared with no argument but its path.\<close>

definition state_at :: "string option list \<Rightarrow> attr_state" where
  "state_at path = \<lparr>default = PyNone, default_for_new = PyNone, null = False,
                     is_hash_key = False, is_range_key = False, attr_path = path\<rparr>"

text \<open>A heap whose objects are data-mode instances that all hold the same values.\<close>

definition twin_heap :: "ref \<Rightarrow> attribute" where
  "twin_heap r = MapData MapAttribute_class no_kwargs [(''x'', PyInt 1)]"

text \<open>
  \<^verbatim>\<open>
  class Inner(MapAttribute):
      leaf = NumberAttribute(attr_name='L')
  \<close>
\<close>

definition Inner_example :: pycls where
  "Inner_example =
     PyClass ''Inner'' [(''leaf'', Attr NumberAttribute (state_at [Some ''L'']))]
       [(''L'', ''leaf'')]"

text \<open>
  \<^verbatim>\<open>
  class Pair(MapAttribute):
      count = NumberAttribute()
      leaf = NumberAttribute(attr_name='L')
  class Middle(MapAttribute):
      alpha = UnicodeAttribute()
      b = Pair()
  class Outer(MapAttribute):
      a = Middle(attr_name='A')
      z = UnicodeAttribute()
  \<close>
\<close>

definition Pair_example :: pycls where
  "Pair_example =
     PyClass ''Pair''
       [(''count'', Attr NumberAttribute (state_at [Some ''count''])),
        (''leaf'', Attr NumberAttribute (state_at [Some ''L'']))]
       [(''L'', ''leaf'')]"

definition Middle_example :: pycls where
  "Middle_example =
     PyClass ''Middle''
       [(''alpha'', Attr UnicodeAttribute (state_at [Some ''alpha''])),
        (''b'', MapSchema Pair_example (state_at [Some ''b''])
                  [(''count'', Attr NumberAttribute (state_at [Some ''b'', Some ''count''])),
                   (''leaf'', Attr NumberAttribute (state_at [Some ''b'', Some ''L'']))])]
       []"

definition Outer_example :: pycls where
  "Outer_example =
     PyClass ''Outer''
       [(''a'', MapSchema Middle_example (state_at [Some ''A''])
                  [(''alpha'', Attr UnicodeAttribute (state_at [Some ''A'', Some ''alpha''])),
                   (''b'', MapSchema Pair_example (state_at [Some ''A'', Some ''b''])
                      [(''count'',
                        Attr NumberAttribute (state_at [Some ''A'', Some ''b'', Some ''count''])),
                       (''leaf'',
                        Attr NumberAttribute (state_at [Some ''A'', Some ''b'', Some ''L'']))])]),
        (''z'', Attr UnicodeAttribute (state_at [Some ''z'']))]
       [(''A'', ''a'')]"

section \<open>Container construction\<close>

text \<open>
  A container instance is its class and its \<^verbatim>\<open>attribute_values\<close>; the keyword
  arguments of a constructor call and the dictionaries of values are association
  lists with distinct keys. A descriptor is an attribute of the class together with,
  for a \<^verbatim>\<open>MapAttribute\<close>, the constructor call \<^verbatim>\<open>type(self)(**value)\<close> of its class.
\<close>

type_synonym kwargs = "(string \<times> pyval) list"
type_synonym constructor = "kwargs \<Rightarrow> error + pyval"
type_synonym descriptor = "attribute \<times> constructor option"

text \<open>\<^verbatim>\<open>attribute_args = getfullargspec(Attribute.__init__).args[1:]\<close>\<close>

definition attribute_args :: "string list" where
  "attribute_args =
     [''hash_key'', ''range_key'', ''null'', ''default'', ''default_for_new'', ''attr_name'']"

text \<open>
  \<^verbatim>\<open>
  def __set__(self, instance, value):
      if instance and not self._is_map_attribute_class_object(instance):
          attr_name = instance._dynamo_to_python_attrs.get(self.attr_name, self.attr_name)
          instance.attribute_values[attr_name] = value
  \<close>
  on a container instance, which is true and no class object. Registration names
  every descriptor; an unnamed one would store under the key \<^verbatim>\<open>None\<close>, which the
  string keys here cannot hold, so it is reported as \<^verbatim>\<open>TypeError\<close>.
\<close>

definition Attribute_set ::
  "attribute \<Rightarrow> pycls \<Rightarrow> kwargs \<Rightarrow> pyval \<Rightarrow> error + kwargs" where
  "Attribute_set self cls attribute_values value =
     (case attr_name self of
        Inl e \<Rightarrow> Inl e
      | Inr None \<Rightarrow> Inl TypeError
      | Inr (Some w) \<Rightarrow>
          Inr (AList.update
                 (case map_of (dynamo_to_python_attrs cls) w of Some n \<Rightarrow> n | None \<Rightarrow> w)
                 value attribute_values))"

text \<open>
  \<^verbatim>\<open>MapAttribute.__set__\<close>:
  \<^verbatim>\<open>
  def __set__(self, instance, value):
      if isinstance(value, collections.abc.Mapping):
          value = type(self)(**value)
      return super().__set__(instance, value)
  \<close>
  A \<open>dict\<close> is the only \<^verbatim>\<open>Mapping\<close> among the values. The other attribute classes
  modelled inherit \<^verbatim>\<open>Attribute.__set__\<close>.
\<close>

definition descriptor_set ::
  "descriptor \<Rightarrow> pycls \<Rightarrow> kwargs \<Rightarrow> pyval \<Rightarrow> error + kwargs" where
  "descriptor_set d cls attribute_values value =
     (case d of (self, type_self) \<Rightarrow>
      case (case type_self of
              Some call \<Rightarrow> (case value of PyDict kvs \<Rightarrow> call kvs | _ \<Rightarrow> Inr value)
            | None \<Rightarrow> Inr value) of
        Inl e \<Rightarrow> Inl e
      | Inr value' \<Rightarrow> Attribute_set self cls attribute_values value')"

text \<open>
  \<^verbatim>\<open>setattr(self, name, value)\<close> on a container instance. \<^verbatim>\<open>MapAttribute.__setattr__\<close>:
  \<^verbatim>\<open>
      if self.is_raw() and self.is_attribute_container():
          self.attribute_values[name] = value
      else:
          object.__setattr__(self, name, value)
  \<close>
  \<^verbatim>\<open>object.__setattr__\<close> calls the descriptor of the class under that name; a name
  with no descriptor is set in the instance dictionary and leaves
  \<^verbatim>\<open>attribute_values\<close> as it is.
\<close>

definition setattr_container ::
  "(string \<times> descriptor) list \<Rightarrow> pycls \<Rightarrow> kwargs \<Rightarrow> string \<Rightarrow> pyval \<Rightarrow> error + kwargs" where
  "setattr_container descriptors cls attribute_values name value =
     (if is_raw cls then Inr (AList.update name value attribute_values)
      else (case map_of descriptors name of
              Some d \<Rightarrow> descriptor_set d cls attribute_values value
            | None \<Rightarrow> Inr attribute_values))"

text \<open>
  \<^verbatim>\<open>
  def _set_defaults(self, _user_instantiated=True):
      for name, attr in self.get_attributes().items():
          if _user_instantiated and attr.default_for_new is not None:
              default = attr.default_for_new
          else:
              default = attr.default
          if callable(default):
              value = default()
          else:
              value = default
          if value is not None:
              setattr(self, name, value)
  \<close>
  \<open>default_of\<close> is the value the loop computes for one attribute.
\<close>

fun default_of :: "bool \<Rightarrow> attribute \<Rightarrow> error + pyval" where
  "default_of user_instantiated (MapData c kw vs) = Inl AttributeError"
| "default_of user_instantiated (Attr k st) =
     (let d = (if user_instantiated \<and> default_for_new st \<noteq> PyNone
               then default_for_new st else default st)
      in Inr (case d of PyCallable v \<Rightarrow> v | _ \<Rightarrow> d))"
| "default_of user_instantiated (MapSchema c st locals) =
     (let d = (if user_instantiated \<and> default_for_new st \<noteq> PyNone
               then default_for_new st else default st)
      in Inr (case d of PyCallable v \<Rightarrow> v | _ \<Rightarrow> d))"

fun set_defaults_loop ::
  "(string \<times> descriptor) list \<Rightarrow> pycls \<Rightarrow> bool \<Rightarrow> (string \<times> descriptor) list \<Rightarrow> kwargs
     \<Rightarrow> error + kwargs" where
  "set_defaults_loop descriptors cls user_instantiated [] attribute_values = Inr attribute_values"
| "set_defaults_loop descriptors cls user_instantiated ((name, attr) # rest) attribute_values =
     (case default_of user_instantiated (fst attr) of
        Inl e \<Rightarrow> Inl e
      | Inr value \<Rightarrow>
          if value \<noteq> PyNone then
            (case setattr_container descriptors cls attribute_values name value of
               Inl e \<Rightarrow> Inl e
             | Inr attribute_values' \<Rightarrow>
                 set_defaults_loop descriptors cls user_instantiated rest attribute_values')
          else set_defaults_loop descriptors cls user_instantiated rest attribute_values)"

definition set_defaults ::
  "(string \<times> descriptor) list \<Rightarrow> pycls \<Rightarrow> bool \<Rightarrow> kwargs \<Rightarrow> error + kwargs" where
  "set_defaults descriptors cls user_instantiated attribute_values =
     set_defaults_loop descriptors cls user_instantiated descriptors attribute_values"

text \<open>
  \<^verbatim>\<open>AttributeContainer._set_attributes\<close>:
  \<^verbatim>\<open>
      for attr_name, attr_value in attributes.items():
          if attr_name not in self.get_attributes():
              raise ValueError("Attribute {} specified does not exist".format(attr_name))
          setattr(self, attr_name, attr_value)
  \<close>
  \<^verbatim>\<open>MapAttribute._set_attributes\<close>:
  \<^verbatim>\<open>
      if self.is_raw():
          for name, value in attrs.items():
              setattr(self, name, value)
      else:
          super()._set_attributes(**attrs)
  \<close>
\<close>

fun AttributeContainer_set_attributes ::
  "(string \<times> descriptor) list \<Rightarrow> pycls \<Rightarrow> kwargs \<Rightarrow> kwargs \<Rightarrow> error + kwargs" where
  "AttributeContainer_set_attributes descriptors cls [] attribute_values = Inr attribute_values"
| "AttributeContainer_set_attributes descriptors cls ((name, value) # rest) attribute_values =
     (if map_of descriptors name = None then Inl ValueError
      else (case setattr_container descriptors cls attribute_values name value of
              Inl e \<Rightarrow> Inl e
            | Inr attribute_values' \<Rightarrow>
                AttributeContainer_set_attributes descriptors cls rest attribute_values'))"

fun setattr_each ::
  "(string \<times> descriptor) list \<Rightarrow> pycls \<Rightarrow> kwargs \<Rightarrow> kwargs \<Rightarrow> error + kwargs" where
  "setattr_each descriptors cls [] attribute_values = Inr attribute_values"
| "setattr_each descriptors cls ((name, value) # rest) attribute_values =
     (case setattr_container descriptors cls attribute_values name value of
        Inl e \<Rightarrow> Inl e
      | Inr attribute_values' \<Rightarrow> setattr_each descriptors cls rest attribute_values')"

definition MapAttribute_set_attributes ::
  "(string \<times> descriptor) list \<Rightarrow> pycls \<Rightarrow> kwargs \<Rightarrow> kwargs \<Rightarrow> error + kwargs" where
  "MapAttribute_set_attributes descriptors cls attrs attribute_values =
     (if is_raw cls then setattr_each descriptors cls attrs attribute_values
      else AttributeContainer_set_attributes descriptors cls attrs attribute_values)"

text \<open>
  \<^verbatim>\<open>
  def __init__(self, _user_instantiated=True, **attributes):
      self.attribute_values = {}
      self._set_defaults(_user_instantiated=_user_instantiated)
      self._set_attributes(**attributes)
  \<close>
  The result is the \<^verbatim>\<open>attribute_values\<close> of the new instance.
\<close>

definition AttributeContainer_init ::
  "(string \<times> descriptor) list \<Rightarrow> pycls \<Rightarrow> bool \<Rightarrow> kwargs \<Rightarrow> error + kwargs" where
  "AttributeContainer_init descriptors cls user_instantiated attributes' =
     (case set_defaults descriptors cls user_instantiated [] of
        Inl e \<Rightarrow> Inl e
      | Inr attribute_values \<Rightarrow>
          MapAttribute_set_attributes descriptors cls attributes' attribute_values)"

text \<open>
  \<^verbatim>\<open>
  def __init__(self, **attributes):
      self.attribute_kwargs = {arg: attributes.pop(arg)
                               for arg in self.attribute_args if arg in attributes}
      AttributeContainer.__init__(self, **attributes)
      if self.attribute_kwargs and (
              attributes or self.is_raw() or all(arg in self.get_attributes()
                                                 for arg in self.attribute_kwargs)):
          self._set_attributes(**self.attribute_kwargs)
  \<close>
  A key \<^verbatim>\<open>_user_instantiated\<close> among the attributes binds the parameter of that name
  of \<^verbatim>\<open>AttributeContainer.__init__\<close>; without it the parameter is \<^verbatim>\<open>True\<close>.
\<close>

definition MapAttribute_init_with ::
  "(string \<times> descriptor) list \<Rightarrow> pycls \<Rightarrow> kwargs \<Rightarrow> error + pyval" where
  "MapAttribute_init_with descriptors cls attributes' =
     (let attribute_kwargs =
            concat (map (\<lambda>arg. case map_of attributes' arg of
                                  Some v \<Rightarrow> [(arg, v)] | None \<Rightarrow> []) attribute_args);
          attributes1 = filter (\<lambda>(k, v). k \<notin> set attribute_args) attributes';
          user_instantiated =
            (case map_of attributes1 ''_user_instantiated'' of
               Some v \<Rightarrow> truthy v | None \<Rightarrow> True);
          attributes2 = filter (\<lambda>(k, v). k \<noteq> ''_user_instantiated'') attributes1
      in case AttributeContainer_init descriptors cls user_instantiated attributes2 of
           Inl e \<Rightarrow> Inl e
         | Inr attribute_values \<Rightarrow>
             if attribute_kwargs \<noteq> [] \<and>
                (attributes1 \<noteq> [] \<or> is_raw cls \<or>
                 list_all (\<lambda>(arg, v). map_of descriptors arg \<noteq> None) attribute_kwargs)
             then (case MapAttribute_set_attributes descriptors cls attribute_kwargs
                          attribute_values of
                     Inl e \<Rightarrow> Inl e
                   | Inr attribute_values' \<Rightarrow>
                       Inr (PyMap (cls_name cls) attribute_kwargs attribute_values'))
             else Inr (PyMap (cls_name cls) attribute_kwargs attribute_values))"

text \<open>
  The constructor call \<^verbatim>\<open>cls(**attributes)\<close> of a \<^verbatim>\<open>MapAttribute\<close> class, with the
  descriptors of the class: each attribute and, by \<open>type_call\<close>, the constructor call
  of a nested \<^verbatim>\<open>MapAttribute\<close>'s class.
\<close>

fun MapAttribute_init :: "pycls \<Rightarrow> kwargs \<Rightarrow> error + pyval"
  and type_call :: "attribute \<Rightarrow> constructor option" where
  "MapAttribute_init (PyClass n attrs d2p) =
     MapAttribute_init_with (map (\<lambda>(name, a). (name, a, type_call a)) attrs)
       (PyClass n attrs d2p)"
| "type_call (Attr k st) = None"
| "type_call (MapData c kw vs) = Some (MapAttribute_init c)"
| "type_call (MapSchema c st locals) = Some (MapAttribute_init c)"

text \<open>\<^verbatim>\<open>attr.__set__(instance, value)\<close> for an attribute \<open>attr\<close> of the class of a
  container instance.\<close>

definition attribute_set ::
  "attribute \<Rightarrow> pycls \<Rightarrow> kwargs \<Rightarrow> pyval \<Rightarrow> error + kwargs" where
  "attribute_set attr cls attribute_values value =
     descriptor_set (attr, type_call attr) cls attribute_values value"

section \<open>Deserialization of a document\<close>

text \<open>
  Modelled from the spec: \<^verbatim>\<open>falcano/constants.py\<close>, which defines the wire type tags,
  is not among the sources. The spec gives the tags of the wire format as
  \<^verbatim>\<open>S\<close>, \<^verbatim>\<open>N\<close>, \<^verbatim>\<open>BOOL\<close>, \<^verbatim>\<open>SS\<close>, \<^verbatim>\<open>L\<close>, \<^verbatim>\<open>M\<close> and \<^verbatim>\<open>NULL\<close>.
\<close>

definition LIST_SHORT :: string where "LIST_SHORT = ''L''"
definition NUMBER_SHORT :: string where "NUMBER_SHORT = ''N''"
definition STRING_SHORT :: string where "STRING_SHORT = ''S''"
definition BOOLEAN :: string where "BOOLEAN = ''BOOL''"
definition MAP_SHORT :: string where "MAP_SHORT = ''M''"
definition NULL :: string where "NULL = ''NULL''"

text \<open>
  \<^verbatim>\<open>
  DESERIALIZE_CLASS_MAP = {
      LIST_SHORT: ListAttribute(), NUMBER_SHORT: NumberAttribute(),
      STRING_SHORT: UnicodeAttribute(), BOOLEAN: BooleanAttribute(),
      MAP_SHORT: MapAttribute(), NULL: NullAttribute()
  }
  \<close>
\<close>

definition DESERIALIZE_CLASS_MAP :: "(string \<times> attribute) list" where
  "DESERIALIZE_CLASS_MAP =
     [(LIST_SHORT, Attr ListAttribute (state_at [None])),
      (NUMBER_SHORT, Attr NumberAttribute (state_at [None])),
      (STRING_SHORT, Attr UnicodeAttribute (state_at [None])),
      (BOOLEAN, Attr BooleanAttribute (state_at [None])),
      (MAP_SHORT, MapData MapAttribute_class no_kwargs []),
      (NULL, Attr NullAttribute (state_at [None]))]"

text \<open>
  \<^verbatim>\<open>
  def _get_value_for_deserialize(value):
      key = next(iter(value.keys()))
      if key == NULL:
          return None
      return value[key]

  def _get_class_for_deserialize(value):
      value_type = list(value.keys())[0]
      if value_type not in DESERIALIZE_CLASS_MAP:
          raise ValueError('Unknown value: ' + str(value))
      return DESERIALIZE_CLASS_MAP[value_type]
  \<close>
  Only a \<open>dict\<close> has \<^verbatim>\<open>keys\<close> among the values modelled.
\<close>

definition get_value_for_deserialize :: "pyval \<Rightarrow> error + pyval" where
  "get_value_for_deserialize value =
     (case value of
        PyDict kvs \<Rightarrow>
          (case kvs of
             [] \<Rightarrow> Inl StopIteration
           | (key, payload) # rest \<Rightarrow> if key = NULL then Inr PyNone else Inr payload)
      | _ \<Rightarrow> Inl AttributeError)"

definition get_class_for_deserialize :: "pyval \<Rightarrow> error + attribute" where
  "get_class_for_deserialize value =
     (case value of
        PyDict kvs \<Rightarrow>
          (case kvs of
             [] \<Rightarrow> Inl IndexError
           | (value_type, payload) # rest \<Rightarrow>
               (case map_of DESERIALIZE_CLASS_MAP value_type of
                  None \<Rightarrow> Inl ValueError
                | Some attr_class \<Rightarrow> Inr attr_class))
      | _ \<Rightarrow> Inl AttributeError)"

text \<open>\<^verbatim>\<open>_dynamo_to_python_attr\<close>:
  \<^verbatim>\<open>return cls._dynamo_to_python_attrs.get(dynamo_key, dynamo_key)\<close>.
  \<^verbatim>\<open>_get_deserialize_class\<close>:
  \<^verbatim>\<open>
      if not cls.is_raw():
          return cls.get_attributes().get(key)
      return _get_class_for_deserialize(value)
  \<close>
\<close>

definition dynamo_to_python_attr :: "pycls \<Rightarrow> string \<Rightarrow> string" where
  "dynamo_to_python_attr cls dynamo_key =
     (case map_of (dynamo_to_python_attrs cls) dynamo_key of
        Some name \<Rightarrow> name | None \<Rightarrow> dynamo_key)"

definition get_deserialize_class :: "pycls \<Rightarrow> string \<Rightarrow> pyval \<Rightarrow> error + attribute option" where
  "get_deserialize_class cls key value =
     (if \<not> is_raw cls then Inr (map_of (attributes cls) key)
      else (case get_class_for_deserialize value of
              Inl e \<Rightarrow> Inl e
            | Inr attr_class \<Rightarrow> Inr (Some attr_class)))"

text \<open>
  \<^verbatim>\<open>UnicodeSetAttribute.deserialize\<close>:
  \<^verbatim>\<open>
      if value:
          return {self.element_deserialize(val) for val in value}
      return None
  \<close>
  where \<^verbatim>\<open>element_deserialize\<close> returns its argument. The sets of this theory hold
  strings. For a list with an element that is not a string the code returns the set of
  the elements, or raises \<^verbatim>\<open>TypeError\<close> when one cannot be hashed; such a list is
  outside the values followed here, and \<^verbatim>\<open>TypeError\<close> stands for both outcomes. The
  iteration of an object that is not iterable raises \<^verbatim>\<open>TypeError\<close>.
\<close>

fun strings_of :: "pyval list \<Rightarrow> string list option" where
  "strings_of [] = Some []"
| "strings_of (PyStr s # vs) = (case strings_of vs of Some ss \<Rightarrow> Some (s # ss) | None \<Rightarrow> None)"
| "strings_of (v # vs) = None"

definition UnicodeSetAttribute_deserialize :: "pyval \<Rightarrow> error + pyval" where
  "UnicodeSetAttribute_deserialize value =
     (if \<not> truthy value then Inr PyNone
      else (case value of
              PySet S \<Rightarrow> Inr (PySet S)
            | PyList xs \<Rightarrow>
                (case strings_of xs of
                   Some ss \<Rightarrow> Inr (PySet (fset_of_list ss))
                 | None \<Rightarrow> Inl TypeError)
            | PyStr s \<Rightarrow> Inr (PySet (fset_of_list (map (\<lambda>c. [c]) s)))
            | PyDict kvs \<Rightarrow> Inr (PySet (fset_of_list (map fst kvs)))
            | PyMap c kw vs \<Rightarrow> Inr (PySet (fset_of_list (map fst vs)))
            | _ \<Rightarrow> Inl TypeError))"

text \<open>\<^verbatim>\<open>attr_class.deserialize(attr_value)\<close> for the attribute classes but
  \<^verbatim>\<open>MapAttribute\<close>.\<close>

fun deserialize_scalar :: "(string \<Rightarrow> error + pyval) \<Rightarrow> kind \<Rightarrow> pyval \<Rightarrow> error + pyval" where
  "deserialize_scalar json_loads UnicodeAttribute value = Inr (Attribute_deserialize value)"
| "deserialize_scalar json_loads UnicodeSetAttribute value = UnicodeSetAttribute_deserialize value"
| "deserialize_scalar json_loads NumberAttribute value = NumberAttribute_deserialize json_loads value"
| "deserialize_scalar json_loads BooleanAttribute value = Inr (BooleanAttribute_deserialize value)"
| "deserialize_scalar json_loads NullAttribute value = Inr (NullAttribute_deserialize value)"
| "deserialize_scalar json_loads ListAttribute value = Inr (ListAttribute_deserialize value)"

text \<open>
  \<^verbatim>\<open>
  def deserialize(self, values):
      deserialized_dict = dict()
      for key in values:
          val = values[key]
          attr_value = _get_value_for_deserialize(val)
          key = self._dynamo_to_python_attr(key)
          attr_class = self._get_deserialize_class(key, val)
          if key is None or attr_class is None:
              continue
          deserialized_value = None
          if attr_value is not None:
              deserialized_value = attr_class.deserialize(attr_value)
          deserialized_dict[key] = deserialized_value
      if not self.is_raw():
          return type(self)(**deserialized_dict)
      return deserialized_dict
  \<close>
  What one turn of the loop does depends on its wire field only, so the loop is a map
  over the wire fields, up to the first exception, followed by the writes into the
  dictionary; a turn that takes \<^verbatim>\<open>continue\<close> gives \<open>None\<close>. The payload of a nested
  document is taken to be a \<open>dict\<close>. The code iterates any other payload it is given
  and subscripts it with each element; that is not followed here, where \<^verbatim>\<open>TypeError\<close>
  stands for the outcome of such a payload.
\<close>

function MapAttribute_deserialize ::
  "(string \<Rightarrow> error + pyval) \<Rightarrow> pycls \<Rightarrow> kwargs \<Rightarrow> error + pyval" where
  "MapAttribute_deserialize json_loads cls values =
     (case collect (map (\<lambda>(key, val).
              case get_value_for_deserialize val of
                Inl e \<Rightarrow> Inl e
              | Inr attr_value \<Rightarrow>
                  (case get_deserialize_class cls (dynamo_to_python_attr cls key) val of
                     Inl e \<Rightarrow> Inl e
                   | Inr None \<Rightarrow> Inr None
                   | Inr (Some attr_class) \<Rightarrow>
                       if attr_value = PyNone
                       then Inr (Some (dynamo_to_python_attr cls key, PyNone))
                       else (case (case attr_class of
                                     Attr k st \<Rightarrow> deserialize_scalar json_loads k attr_value
                                   | MapData c kw vs \<Rightarrow>
                                       (case attr_value of
                                          PyDict kvs \<Rightarrow> MapAttribute_deserialize json_loads c kvs
                                        | _ \<Rightarrow> Inl TypeError)
                                   | MapSchema c st locals \<Rightarrow>
                                       (case attr_value of
                                          PyDict kvs \<Rightarrow> MapAttribute_deserialize json_loads c kvs
                                        | _ \<Rightarrow> Inl TypeError)) of
                               Inl e \<Rightarrow> Inl e
                             | Inr deserialized_value \<Rightarrow>
                                 Inr (Some (dynamo_to_python_attr cls key, deserialized_value)))))
            values) of
        Inl e \<Rightarrow> Inl e
      | Inr entries \<Rightarrow>
          (let deserialized_dict =
                 fold (\<lambda>entry d. case entry of Some (k, v) \<Rightarrow> AList.update k v d | None \<Rightarrow> d)
                   entries []
           in if \<not> is_raw cls then MapAttribute_init cls deserialized_dict
              else Inr (PyDict deserialized_dict)))"
  by pat_completeness auto
termination
proof -
  have step: "size_list (size_prod (\<lambda>x. 0) size) kvs
      < size_list (size_prod (\<lambda>x. 0) size) wire"
    if m: "(key, val) \<in> set wire" and g: "get_value_for_deserialize val = Inr (PyDict kvs)"
    for key :: string and val kvs wire
  proof -
    from g obtain tag rest where "val = PyDict ((tag, PyDict kvs) # rest)"
      by (auto simp: get_value_for_deserialize_def split: pyval.splits list.splits if_splits)
    then have "size (PyDict kvs) < size val" by simp
    moreover from m have "size_prod (\<lambda>x. 0) size (key, val)
        \<le> size_list (size_prod (\<lambda>x. 0) size) wire"
      by (rule size_list_estimation') simp
    ultimately show ?thesis by simp
  qed
  show ?thesis
    by (relation "measure (\<lambda>(l, c, wire). size (PyDict wire))") (auto intro: step)
qed

text \<open>One turn of the loop of \<^verbatim>\<open>deserialize\<close>, and the part after the loop.\<close>

definition deserialize_entry ::
  "(string \<Rightarrow> error + pyval) \<Rightarrow> pycls \<Rightarrow> string \<times> pyval \<Rightarrow> error + (string \<times> pyval) option" where
  "deserialize_entry json_loads cls = (\<lambda>(key, val).
     case get_value_for_deserialize val of
       Inl e \<Rightarrow> Inl e
     | Inr attr_value \<Rightarrow>
         (case get_deserialize_class cls (dynamo_to_python_attr cls key) val of
            Inl e \<Rightarrow> Inl e
          | Inr None \<Rightarrow> Inr None
          | Inr (Some attr_class) \<Rightarrow>
              if attr_value = PyNone
              then Inr (Some (dynamo_to_python_attr cls key, PyNone))
              else (case (case attr_class of
                            Attr k st \<Rightarrow> deserialize_scalar json_loads k attr_value
                          | MapData c kw vs \<Rightarrow>
                              (case attr_value of
                                 PyDict kvs \<Rightarrow> MapAttribute_deserialize json_loads c kvs
                               | _ \<Rightarrow> Inl TypeError)
                          | MapSchema c st locals \<Rightarrow>
                              (case attr_value of
                                 PyDict kvs \<Rightarrow> MapAttribute_deserialize json_loads c kvs
                               | _ \<Rightarrow> Inl TypeError)) of
                      Inl e \<Rightarrow> Inl e
                    | Inr deserialized_value \<Rightarrow>
                        Inr (Some (dynamo_to_python_attr cls key, deserialized_value)))))"

definition deserialize_finish ::
  "pycls \<Rightarrow> error + (string \<times> pyval) option list \<Rightarrow> error + pyval" where
  "deserialize_finish cls result =
     (case result of
        Inl e \<Rightarrow> Inl e
      | Inr entries \<Rightarrow>
          (let deserialized_dict =
                 fold (\<lambda>entry d. case entry of Some (k, v) \<Rightarrow> AList.update k v d | None \<Rightarrow> d)
                   entries []
           in if \<not> is_raw cls then MapAttribute_init cls deserialized_dict
              else Inr (PyDict deserialized_dict)))"

text \<open>
  \<^verbatim>\<open>
  class Doc(MapAttribute):
      x = NumberAttribute(default_for_new=5)
      m = Inner(attr_name='M')
  \<close>
  with the class \<open>Inner\<close> above.
\<close>

definition Doc_example :: pycls where
  "Doc_example =
     PyClass ''Doc''
       [(''m'', MapSchema Inner_example (state_at [Some ''M''])
                  [(''leaf'', Attr NumberAttribute (state_at [Some ''M'', Some ''L'']))]),
        (''x'', Attr NumberAttribute ((state_at [Some ''x''])\<lparr>default_for_new := PyInt 5\<rparr>))]
       [(''M'', ''m'')]"

section \<open>Properties\<close>

lemma split_from_nonempty: "split_from sep acc s \<noteq> []"
  by (induction sep acc s rule: split_from.induct) auto

lemma py_index_first: "xs \<noteq> [] \<Longrightarrow> py_index xs 0 = Inr (hd xs)"
  by (cases xs) (simp_all add: py_index_def)

lemma py_index_last: "xs \<noteq> [] \<Longrightarrow> py_index xs (- 1) = Inr (last xs)"
  by (cases xs) (simp_all add: py_index_def last_conv_nth nat_diff_distrib')

lemma KeyAttribute_init_separator:
  "KeyAttribute_init p s f h r sp = Inr k \<Longrightarrow> separator k \<noteq> []"
  by (auto simp: KeyAttribute_init_def Attribute_init_def no_kwargs_def Let_def
      attr_state.defs key_attribute.defs split: if_splits option.splits)

lemma KeyAttribute_serialize_spec:
  "KeyAttribute_serialize str_of k v = spec_key_serialize str_of k v"
  by (cases "prefix k"; cases "suffix k"; cases "fixed_value k")
     (simp_all add: KeyAttribute_serialize_def spec_key_serialize_def Let_def)

lemma KeyAttribute_deserialize_spec:
  assumes "separator k \<noteq> []"
  shows "KeyAttribute_deserialize k (PyStr t) = Inr (spec_key_deserialize k t)"
  using assms split_from_nonempty [of "separator k" "[]" t]
  by (simp add: KeyAttribute_deserialize_def spec_key_deserialize_def py_split_def
      py_index_first py_index_last Let_def)

text \<open>
  Claim C8. For every composite key attribute that its constructor accepts: serialize
  substitutes the configured fixed value when no dynamic value is supplied, composes
  prefix, separator, value, separator, suffix without the parts configured as absent,
  and hands the result to the string encoder; deserialize splits the stored string on
  the separator, takes the last segment when a prefix is configured and the first
  segment otherwise, hands it to the string decoder, and does not raise.
\<close>

theorem KeyAttribute_serialize_deserialize_spec:
  assumes "KeyAttribute_init p s f h r sp = Inr k"
  shows "KeyAttribute_serialize str_of k v = spec_key_serialize str_of k v
       \<and> KeyAttribute_deserialize k (PyStr t) = Inr (spec_key_deserialize k t)"
  using KeyAttribute_init_separator [OF assms]
  by (simp add: KeyAttribute_serialize_spec KeyAttribute_deserialize_spec)

lemma user_key_init:
  "KeyAttribute_init (Some ''user'') None None True False None = Inr user_key"
  by (simp add: KeyAttribute_init_def Attribute_init_def no_kwargs_def user_key_def
      attr_state.defs key_attribute.defs)

lemma user_key_serialize:
  "KeyAttribute_serialize str_of user_key (PyStr ''42'') = PyStr ''user#42''"
  by (simp add: KeyAttribute_serialize_def user_key_def UnicodeAttribute_serialize_def)

lemma user_key_deserialize:
  "KeyAttribute_deserialize user_key (PyStr ''user#42'') = Inr (PyStr ''42'')"
  by (simp add: KeyAttribute_deserialize_def user_key_def py_split_def py_index_def
      Attribute_deserialize_def)

theorem KeyAttribute_serialize_deserialize_spec_witness:
  "KeyAttribute_init (Some ''user'') None None True False None = Inr user_key
   \<and> PyStr ''user#42'' = spec_key_serialize (\<lambda>v. []) user_key (PyStr ''42'')
   \<and> Inr (PyStr ''42'') = Inr (spec_key_deserialize user_key ''user#42'')"
  using KeyAttribute_serialize_deserialize_spec
          [OF user_key_init, of "\<lambda>v. []" "PyStr ''42''" "''user#42''"]
  by (simp add: user_key_init user_key_serialize user_key_deserialize)

subsection \<open>Number attribute\<close>

text \<open>
  Claim C4. The number attribute does not round-trip: \<^verbatim>\<open>serialize\<close> returns the number
  itself, not a text, and \<^verbatim>\<open>deserialize\<close> of that result raises \<^verbatim>\<open>TypeError\<close>,
  whatever the JSON parser does on texts.
\<close>

theorem NumberAttribute_roundtrip_raises:
  "NumberAttribute_serialize (PyInt 5) = PyInt 5
   \<and> NumberAttribute_deserialize json_loads (NumberAttribute_serialize (PyInt 5)) = Inl TypeError"
  by (simp add: NumberAttribute_serialize_def NumberAttribute_deserialize_def)

lemma BooleanAttribute_roundtrip:
  "BooleanAttribute_deserialize (BooleanAttribute_serialize (PyBool b)) = PyBool b"
  by (simp add: BooleanAttribute_serialize_def BooleanAttribute_deserialize_def)

lemma ListAttribute_roundtrip:
  "ListAttribute_deserialize (ListAttribute_serialize v) = v"
  by (simp add: ListAttribute_serialize_def ListAttribute_deserialize_def)

lemma NullAttribute_roundtrip:
  "NullAttribute_deserialize (NullAttribute_serialize PyNone) = PyNone"
  by (simp add: NullAttribute_deserialize_def)

lemma UnicodeAttribute_roundtrip:
  "s \<noteq> [] \<Longrightarrow> Attribute_deserialize (UnicodeAttribute_serialize str_of (PyStr s)) = PyStr s"
  by (simp add: UnicodeAttribute_serialize_def Attribute_deserialize_def)

lemma UnicodeAttribute_empty_omitted:
  "UnicodeAttribute_serialize str_of (PyStr []) = PyNone"
  by (simp add: UnicodeAttribute_serialize_def)

subsection \<open>Set attributes\<close>

lemma sort_distinct_eq:
  "distinct xs \<Longrightarrow> sort xs = sorted_list_of_set (set xs)"
  by (simp add: sorted_list_of_set_sort_remdups distinct_remdups_id)

lemma element_serialize_str: "element_serialize str_of (PyStr s) = s"
  by (simp add: element_serialize_def)

lemma element_serialize_comp: "element_serialize str_of \<circ> PyStr = id"
  by (rule ext) (simp add: element_serialize_str)

text \<open>
  Claim C5, as the code has it. For a collection of strings with no duplicates,
  whatever its iteration order: \<^verbatim>\<open>SetMixin.serialize\<close> returns the list of the
  JSON-encoded elements in sorted order; \<^verbatim>\<open>UnicodeSetAttribute.serialize\<close>, which
  overrides it, returns the set of the elements themselves; both depend on the set of
  elements only, and both return \<^verbatim>\<open>None\<close> for an empty and for an absent set.
\<close>

theorem set_serialize_order_independent:
  assumes "distinct xs"
  shows "SetMixin_serialize json_dumps (Elements xs) =
           (if set xs = {} then Inr PyNone else spec_set_wire json_dumps (set xs))
       \<and> UnicodeSetAttribute_serialize str_of (Elements xs) =
           (if set xs = {} then PyNone else PySet (fset_of_list xs))
       \<and> SetMixin_serialize json_dumps NoValue = Inr PyNone
       \<and> UnicodeSetAttribute_serialize str_of NoValue = PyNone"
proof -
  have s: "sort xs = sorted_list_of_set (set xs)"
    using assms by (rule sort_distinct_eq)
  have "fset_of_list (sort xs) = fset_of_list xs"
    by (simp add: fset_of_list.abs_eq)
  then show ?thesis
    by (simp add: SetMixin_serialize_def UnicodeSetAttribute_serialize_def spec_set_wire_def
        element_serialize_comp s [symmetric])
qed

theorem set_serialize_order_independent_witness:
  "distinct [''b'', ''a'']
   \<and> SetMixin_serialize (\<lambda>v. Inr (py_str (\<lambda>u. []) v)) (Elements [''b'', ''a'']) =
       spec_set_wire (\<lambda>v. Inr (py_str (\<lambda>u. []) v)) (set [''a'', ''b''])
   \<and> UnicodeSetAttribute_serialize (\<lambda>u. []) (Elements [''b'', ''a'']) =
       PySet (fset_of_list [''a'', ''b''])"
proof -
  have d: "distinct [''b'', ''a'']" by simp
  have e: "set [''b'', ''a''] = set [''a'', ''b'']" by auto
  have f: "fset_of_list [''b'', ''a''] = fset_of_list [''a'', ''b'']" by auto
  show ?thesis
    using set_serialize_order_independent
            [OF d, of "\<lambda>v. Inr (py_str (\<lambda>u. []) v)" "\<lambda>u. []"] d e f
    by simp
qed

theorem UnicodeSetAttribute_serialize_not_encoded_list:
  "UnicodeSetAttribute_serialize (\<lambda>u. []) (Elements [''b'', ''a'']) = PySet {|''a'', ''b''|}
   \<and> UnicodeSetAttribute_serialize (\<lambda>u. []) (Elements [''b'', ''a''])
       \<noteq> PyList [PyStr [CHR 0x22, CHR ''a'', CHR 0x22], PyStr [CHR 0x22, CHR ''b'', CHR 0x22]]"
  by (simp add: UnicodeSetAttribute_serialize_def element_serialize_def)

subsection \<open>Equality of containers\<close>

text \<open>
  Claim C10. Equality on attribute containers is object identity: for containers
  \<open>a\<close> and \<open>b\<close>, data-mode \<^verbatim>\<open>MapAttribute\<close> instances included, \<open>a == b\<close> holds
  exactly when they are the same object and \<open>a != b\<close> exactly when they are not.
\<close>

theorem container_equality_is_identity:
  "AttributeContainer_eq a b = (a = b)
   \<and> AttributeContainer_ne a b = (a \<noteq> b)
   \<and> MapAttribute_eq heap a b = (a = b)
   \<and> MapAttribute_ne heap a b = (a \<noteq> b)"
  by (simp add: AttributeContainer_eq_def AttributeContainer_ne_def MapAttribute_eq_def
      MapAttribute_ne_def Attribute_eq_def Attribute_ne_def)

lemma equal_values_distinct_objects_unequal:
  "twin_heap 0 = twin_heap 1 \<and> is_attribute_container (twin_heap 0)
   \<and> \<not> MapAttribute_eq twin_heap 0 1 \<and> MapAttribute_ne twin_heap 0 1
   \<and> MapAttribute_eq twin_heap 0 0"
  by (simp add: twin_heap_def MapAttribute_eq_def MapAttribute_ne_def
      AttributeContainer_eq_def AttributeContainer_ne_def)

subsection \<open>Type registration\<close>

lemma state_attr_name_init:
  "Attribute_init cn kw = Inr st \<Longrightarrow> state_attr_name st = Inr (kw_attr_name kw)"
  by (auto simp: Attribute_init_def state_attr_name_def py_index_def split: if_splits)

lemma attr_path_init:
  "Attribute_init cn kw = Inr st \<Longrightarrow> attr_path st = [kw_attr_name kw]"
  by (auto simp: Attribute_init_def split: if_splits)

lemma initialize_member_turn:
  "initialize_member (name, a) (attrs, d2p) =
     (case member_turn (name, a) of
        Inl e \<Rightarrow> Inl e
      | Inr (a3, wire) \<Rightarrow>
          Inr (AList.update name a3 attrs,
               (case wire of Some w \<Rightarrow> AList.update w name d2p | None \<Rightarrow> d2p)))"
proof (cases "if isinstance_MapAttribute a then make_attribute a else Inr (False, a)")
  case (Inl e)
  then show ?thesis
    by (simp add: initialize_member_def member_turn_def del: make_attribute.simps)
next
  case conv: (Inr p)
  obtain initialized a1 where p: "p = (initialized, a1)" by (cases p)
  show ?thesis
  proof (cases "attr_name a1")
    case (Inl e)
    with conv p show ?thesis
      by (simp add: initialize_member_def member_turn_def del: make_attribute.simps)
  next
    case wire: (Inr wire)
    show ?thesis
    proof (cases wire)
      case (Some w)
      show ?thesis
        by (cases "if initialized \<and> isinstance_MapAttribute a1
                   then update_attribute_paths w a1 else Inr a1")
           (simp_all add: initialize_member_def member_turn_def conv p wire Some
              del: make_attribute.simps update_attribute_paths.simps)
    next
      case None
      show ?thesis
      proof (cases "set_attr_name name a1")
        case (Inl e)
        then show ?thesis
          by (simp add: initialize_member_def member_turn_def conv p wire None
              del: make_attribute.simps)
      next
        case (Inr a2)
        show ?thesis
          by (cases "if initialized \<and> isinstance_MapAttribute a2
                     then update_attribute_paths name a2 else Inr a2")
             (simp_all add: initialize_member_def member_turn_def conv p wire None Inr
                del: make_attribute.simps update_attribute_paths.simps)
      qed
    qed
  qed
qed

lemma collect_map_Inr:
  "collect (map f xs) = Inr ys \<Longrightarrow> map f xs = map Inr ys"
proof (induction xs arbitrary: ys)
  case Nil
  then show ?case by simp
next
  case (Cons x xs)
  then show ?case by (cases "f x") (auto split: sum.splits)
qed

lemma collect_map_Inr_iff:
  "collect (map Inr ys) = Inr ys"
  by (induction ys) simp_all

lemma initialize_members_turns:
  "initialize_members ms (attrs, d2p) =
     (case collect (map member_turn ms) of
        Inl e \<Rightarrow> Inl e
      | Inr rs \<Rightarrow>
          Inr (fold (\<lambda>(n, a). AList.update n a) (zip (map fst ms) (map fst rs)) attrs,
               fold (\<lambda>(w, n). AList.update w n) (explicit_wire_names ms rs) d2p))"
proof (induction ms arbitrary: attrs d2p)
  case Nil
  then show ?case by (simp add: explicit_wire_names_def)
next
  case (Cons m ms)
  obtain name a where m: "m = (name, a)" by (cases m)
  show ?case
  proof (cases "member_turn (name, a)")
    case (Inl e)
    then show ?thesis by (simp add: m initialize_member_turn)
  next
    case (Inr r)
    obtain a3 wire where r: "r = (a3, wire)" by (cases r)
    show ?thesis
      using Inr r Cons.IH
      by (cases wire; cases "collect (map member_turn ms)")
         (simp_all add: m initialize_member_turn explicit_wire_names_def)
  qed
qed

lemma map_of_fold_update:
  "map_of (fold (\<lambda>(k, v). AList.update k v) xs al) = map_of al ++ map_of (rev xs)"
  by (induction xs arbitrary: al) (auto simp: update_conv')


lemma map_of_rev_distinct:
  "distinct (map fst xs) \<Longrightarrow> map_of (rev xs) = map_of xs"
  by (subst map_of_inject_set) (simp_all add: rev_map [symmetric])

lemma map_of_unique_value:
  assumes "(n, v) \<in> set xs" and "\<And>v'. (n, v') \<in> set xs \<Longrightarrow> v' = v"
  shows "map_of xs n = Some v"
proof -
  from assms(1) obtain x where x: "map_of xs n = Some x"
    by (auto dest: weak_map_of_SomeI)
  then have "(n, x) \<in> set xs" by (rule map_of_SomeD)
  with assms(2) x show ?thesis by simp
qed


lemma collect_map_member:
  assumes "collect (map f xs) = Inr ys" and "x \<in> set xs"
  shows "\<exists>y. f x = Inr y \<and> y \<in> set ys"
proof -
  from assms(1) have "map f xs = map Inr ys" by (rule collect_map_Inr)
  then have "f ` set xs = Inr ` set ys" by (metis set_map)
  with assms(2) show ?thesis by auto
qed

lemma collect_map_result:
  assumes "collect (map f xs) = Inr ys" and "y \<in> set ys"
  shows "\<exists>x. x \<in> set xs \<and> f x = Inr y"
proof -
  from assms(1) have "map f xs = map Inr ys" by (rule collect_map_Inr)
  then have "f ` set xs = Inr ` set ys" by (metis set_map)
  with assms(2) show ?thesis by (metis imageE imageI)
qed

lemma update_attribute_paths_locals:
  assumes u: "update_attribute_paths seg (MapSchema c st ls) = Inr r"
    and n: "n \<in> fst ` set (attributes c)"
  shows "\<exists>ls'. r = MapSchema c st ls'
     \<and> ((\<exists>k st'. map_of ls n = Some (Attr k st')
            \<and> map_of ls' n = Some (Attr k (insert_segment seg st')))
        \<or> (\<exists>c' st' ls'' r'. map_of ls n = Some (MapSchema c' st' ls'')
            \<and> update_attribute_paths seg (MapSchema c' (insert_segment seg st') ls'') = Inr r'
            \<and> map_of ls' n = Some r'))"
proof -
  define g where "g = (\<lambda>name.
              case map_of ls name of
                None \<Rightarrow> Inl KeyError
              | Some (Attr k st') \<Rightarrow> Inr (name, Attr k (insert_segment seg st'))
              | Some (MapData c' kw vs) \<Rightarrow> Inl AttributeError
              | Some (MapSchema c' st' locals') \<Rightarrow>
                  (case update_attribute_paths seg
                          (MapSchema c' (insert_segment seg st') locals') of
                     Inl e \<Rightarrow> Inl e
                   | Inr local_attr \<Rightarrow> Inr (name, local_attr)))"
  have "update_attribute_paths seg (MapSchema c st ls) =
      (case collect (map g (map fst (attributes c))) of
         Inl e \<Rightarrow> Inl e
       | Inr updated \<Rightarrow>
           Inr (MapSchema c st (fold (\<lambda>(name, a). AList.update name a) updated ls)))"
    unfolding g_def by (subst update_attribute_paths.simps) (rule refl)
  with u obtain updated where
    c: "collect (map g (map fst (attributes c))) = Inr updated"
    and r: "r = MapSchema c st (fold (\<lambda>(name, a). AList.update name a) updated ls)"
    by (auto split: sum.splits)
  have key: "k = m" if "g m = Inr (k, v)" for m k v
    using that
    by (auto simp: g_def simp del: update_attribute_paths.simps
        split: option.splits attribute.splits sum.splits)
  from n have "n \<in> set (map fst (attributes c))" by simp
  from collect_map_member [OF c this] obtain y where y: "g n = Inr y" "y \<in> set updated"
    by blast
  obtain k v where kv: "y = (k, v)" by (cases y)
  with y key have v: "g n = Inr (n, v)" "(n, v) \<in> set updated" by auto
  have "map_of (rev updated) n = Some v"
  proof (rule map_of_unique_value)
    show "(n, v) \<in> set (rev updated)" using v(2) by simp
  next
    fix v'
    assume "(n, v') \<in> set (rev updated)"
    then have "(n, v') \<in> set updated" by simp
    from collect_map_result [OF c this] obtain m where "g m = Inr (n, v')" by blast
    with key [of m n v'] v show "v' = v" by simp
  qed
  then have l: "map_of (fold (\<lambda>(name, a). AList.update name a) updated ls) n = Some v"
    by (simp add: map_of_fold_update map_add_def)
  from v(1) consider
      (leaf) k st' where "map_of ls n = Some (Attr k st')" "v = Attr k (insert_segment seg st')"
    | (node) c' st' ls'' where "map_of ls n = Some (MapSchema c' st' ls'')"
        "update_attribute_paths seg (MapSchema c' (insert_segment seg st') ls'') = Inr v"
    by (auto simp: g_def simp del: update_attribute_paths.simps
        split: option.splits attribute.splits sum.splits)
  then show ?thesis
  proof cases
    case leaf
    with l r show ?thesis by blast
  next
    case node
    with l r show ?thesis by blast
  qed
qed

lemma registered_member:
  assumes reg: "initialize_attributes cn ms = Inr cls"
    and d: "distinct (map fst ms)" and m: "(n, a) \<in> set ms"
  shows "\<exists>a' w. member_turn (n, a) = Inr (a', w) \<and> map_of (attributes cls) n = Some a'"
proof -
  from reg obtain rs where c: "collect (map member_turn ms) = Inr rs"
    and a: "attributes cls = fold (\<lambda>(n, a). AList.update n a) (zip (map fst ms) (map fst rs)) []"
    by (auto simp: initialize_attributes_def initialize_members_turns split: sum.splits)
  from c have e: "map member_turn ms = map Inr rs" by (rule collect_map_Inr)
  then have len: "length rs = length ms" by (metis length_map)
  from m obtain i where i: "i < length ms" "ms ! i = (n, a)" by (auto simp: in_set_conv_nth)
  from e i len have t: "member_turn (n, a) = Inr (rs ! i)"
    by (metis nth_map)
  have dz: "distinct (map fst (zip (map fst ms) (map fst rs)))"
    using d len by simp
  have "map_of (attributes cls) n = map_of (zip (map fst ms) (map fst rs)) n"
    by (simp add: a map_of_fold_update map_of_rev_distinct [OF dz])
  also have "\<dots> = Some (map fst rs ! i)"
    using map_of_zip_nth [of "map fst ms" "map fst rs" i] d len i by simp
  finally show ?thesis
    using t i len by (cases "rs ! i") auto
qed

lemma member_turn_leaf:
  assumes "Attribute_init cn kw = Inr st"
  shows "member_turn (n, Attr k st) =
     Inr (Attr k (st\<lparr>attr_path := [Some (wire_name kw n)]\<rparr>), kw_attr_name kw)"
proof -
  from assms have p: "attr_path st = [kw_attr_name kw]" by (rule attr_path_init)
  then show ?thesis
    by (cases "kw_attr_name kw")
       (simp_all add: member_turn_def state_attr_name_def py_index_def
          state_set_attr_name_def wire_name_def)
qed

lemma member_turn_map:
  assumes "member_turn (n, MapData c kw vs) = Inr (a, w)"
  shows "\<exists>st. Attribute_init False kw = Inr st
     \<and> update_attribute_paths (wire_name kw n)
          (MapSchema c (st\<lparr>attr_path := [Some (wire_name kw n)]\<rparr>) (attributes c)) = Inr a
     \<and> w = kw_attr_name kw"
proof (cases "Attribute_init False kw")
  case (Inl e)
  with assms show ?thesis by (simp add: member_turn_def)
next
  case (Inr st)
  then have p: "attr_path st = [kw_attr_name kw]" by (rule attr_path_init)
  with assms Inr show ?thesis
    by (cases "kw_attr_name kw")
       (auto simp: member_turn_def state_attr_name_def py_index_def
          state_set_attr_name_def wire_name_def split: sum.splits)
qed

text \<open>
  Claim C6. \<open>Inner\<close>, \<open>Middle\<close> and \<open>Outer\<close> are document types with any number of
  fields, registered in the order of nesting: \<open>Inner\<close> has an attribute field \<open>nl\<close>,
  \<open>Middle\<close> a field \<open>nb\<close> of type \<open>Inner\<close> and \<open>Outer\<close> a field \<open>na\<close> of type \<open>Middle\<close>.
  Then the attribute reached as \<open>Outer.na.nb.nl\<close> has the path of the wire names of
  \<open>na\<close>, \<open>nb\<close> and \<open>nl\<close>, from the root to the leaf. The members of a type have distinct
  names, as \<^verbatim>\<open>getmembers\<close> returns them; the wire names of \<open>nb\<close> and \<open>nl\<close> lead back to
  these fields in \<^verbatim>\<open>_dynamo_to_python_attrs\<close> of \<open>Middle\<close> and \<open>Inner\<close>, which is how a read
  finds the local copy of a field; and the fields of the three types have ordinary names.
\<close>

theorem nested_attribute_path:
  assumes leaf: "Attribute_init class_null kwl = Inr stl"
    and inner: "initialize_attributes inner_name inner_members = Inr Inner"
    and middle: "initialize_attributes middle_name middle_members = Inr Middle"
    and outer: "initialize_attributes outer_name outer_members = Inr Outer"
    and names: "distinct (map fst inner_members)" "distinct (map fst middle_members)"
      "distinct (map fst outer_members)"
    and fields: "(nl, Attr k stl) \<in> set inner_members"
      "(nb, MapData Inner kwb vsb) \<in> set middle_members"
      "(na, MapData Middle kwa vsa) \<in> set outer_members"
    and wires: "dynamo_to_python_attr Inner (wire_name kwl nl) = nl"
      "dynamo_to_python_attr Middle (wire_name kwb nb) = nb"
    and ordinary: "ordinary_class Inner" "ordinary_class Middle" "ordinary_class Outer"
  shows "\<exists>a b leaf. getattr_class Outer na = Inr a
     \<and> getattr_schema a nb = Inr b
     \<and> getattr_schema b nl = Inr leaf
     \<and> attribute_path leaf =
         Inr [Some (wire_name kwa na), Some (wire_name kwb nb), Some (wire_name kwl nl)]"
proof -
  let ?wa = "wire_name kwa na" and ?wb = "wire_name kwb nb" and ?wl = "wire_name kwl nl"
  let ?leaf = "Attr k (stl\<lparr>attr_path := [Some ?wl]\<rparr>)"
  from registered_member [OF inner names(1) fields(1)] member_turn_leaf [OF leaf, of nl k]
  have I: "map_of (attributes Inner) nl = Some ?leaf"
    by auto
  then have nlI: "nl \<in> fst ` set (attributes Inner)"
    by (metis map_of_eq_None_iff option.distinct(1))
  from registered_member [OF middle names(2) fields(2)] obtain b w where
    tb: "member_turn (nb, MapData Inner kwb vsb) = Inr (b, w)"
    and M: "map_of (attributes Middle) nb = Some b"
    by blast
  from member_turn_map [OF tb] obtain stb where
    ub: "update_attribute_paths ?wb
           (MapSchema Inner (stb\<lparr>attr_path := [Some ?wb]\<rparr>) (attributes Inner)) = Inr b"
    by blast
  from update_attribute_paths_locals [OF ub nlI] I obtain lsb where
    b: "b = MapSchema Inner (stb\<lparr>attr_path := [Some ?wb]\<rparr>) lsb"
    and lb: "map_of lsb nl = Some (Attr k (insert_segment ?wb (stl\<lparr>attr_path := [Some ?wl]\<rparr>)))"
    by auto
  from M have nbM: "nb \<in> fst ` set (attributes Middle)"
    by (metis map_of_eq_None_iff option.distinct(1))
  from registered_member [OF outer names(3) fields(3)] obtain a w' where
    ta: "member_turn (na, MapData Middle kwa vsa) = Inr (a, w')"
    and O: "map_of (attributes Outer) na = Some a"
    by blast
  from member_turn_map [OF ta] obtain sta where
    ua: "update_attribute_paths ?wa
           (MapSchema Middle (sta\<lparr>attr_path := [Some ?wa]\<rparr>) (attributes Middle)) = Inr a"
    by blast
  from update_attribute_paths_locals [OF ua nbM] M b obtain lsa b' where
    a: "a = MapSchema Middle (sta\<lparr>attr_path := [Some ?wa]\<rparr>) lsa"
    and ub': "update_attribute_paths ?wa
           (MapSchema Inner (insert_segment ?wa (stb\<lparr>attr_path := [Some ?wb]\<rparr>)) lsb) = Inr b'"
    and la: "map_of lsa nb = Some b'"
    by auto
  from update_attribute_paths_locals [OF ub' nlI] lb obtain lsb' where
    b': "b' = MapSchema Inner (insert_segment ?wa (stb\<lparr>attr_path := [Some ?wb]\<rparr>)) lsb'"
    and lb': "map_of lsb' nl = Some (Attr k (insert_segment ?wa
        (insert_segment ?wb (stl\<lparr>attr_path := [Some ?wl]\<rparr>))))"
    by auto
  have 1: "getattr_class Outer na = Inr a"
    by (simp add: getattr_class_def O)
  have 2: "getattr_schema a nb = Inr b'"
    using wires(2)
    by (simp add: a M b la state_attr_name_def py_index_def dynamo_to_python_attr_def)
  have 3: "getattr_schema b' nl = Inr (Attr k (insert_segment ?wa
        (insert_segment ?wb (stl\<lparr>attr_path := [Some ?wl]\<rparr>))))"
    using wires(1)
    by (simp add: b' I lb' state_attr_name_def py_index_def dynamo_to_python_attr_def)
  show ?thesis
    using 1 2 3 by (simp add: insert_segment_def)
qed

lemma Pair_example_registered:
  "initialize_attributes ''Pair''
     [(''count'', Attr NumberAttribute (state_at [None])),
      (''leaf'', Attr NumberAttribute (state_at [Some ''L'']))]
     = Inr Pair_example"
  by (simp add: initialize_attributes_def initialize_member_def state_attr_name_def
      state_set_attr_name_def py_index_def state_at_def Pair_example_def)

lemma Middle_example_registered:
  "initialize_attributes ''Middle''
     [(''alpha'', Attr UnicodeAttribute (state_at [None])),
      (''b'', MapData Pair_example no_kwargs [])]
     = Inr Middle_example"
  by (simp add: initialize_attributes_def initialize_member_def state_attr_name_def
      state_set_attr_name_def py_index_def state_at_def Pair_example_def Middle_example_def
      Attribute_init_def no_kwargs_def insert_segment_def)

lemma Outer_example_registered:
  "initialize_attributes ''Outer''
     [(''a'', MapData Middle_example (no_kwargs\<lparr>kw_attr_name := Some ''A''\<rparr>) []),
      (''z'', Attr UnicodeAttribute (state_at [None]))]
     = Inr Outer_example"
  by (simp add: initialize_attributes_def initialize_member_def state_attr_name_def
      state_set_attr_name_def py_index_def state_at_def Pair_example_def Middle_example_def
      Outer_example_def Attribute_init_def no_kwargs_def insert_segment_def)

lemma examples_ordinary:
  "ordinary_class Pair_example" "ordinary_class Middle_example" "ordinary_class Outer_example"
  by (simp_all add: Pair_example_def Middle_example_def Outer_example_def ordinary_name_def
      machinery_names_def)

theorem nested_attribute_path_witness:
  "Attribute_init False (no_kwargs\<lparr>kw_attr_name := Some ''L''\<rparr>) = Inr (state_at [Some ''L''])
   \<and> initialize_attributes ''Pair''
        [(''count'', Attr NumberAttribute (state_at [None])),
         (''leaf'', Attr NumberAttribute (state_at [Some ''L'']))]
       = Inr Pair_example
   \<and> initialize_attributes ''Middle''
        [(''alpha'', Attr UnicodeAttribute (state_at [None])),
         (''b'', MapData Pair_example no_kwargs [])]
       = Inr Middle_example
   \<and> initialize_attributes ''Outer''
        [(''a'', MapData Middle_example (no_kwargs\<lparr>kw_attr_name := Some ''A''\<rparr>) []),
         (''z'', Attr UnicodeAttribute (state_at [None]))]
       = Inr Outer_example
   \<and> distinct [''count'', ''leaf''] \<and> distinct [''alpha'', ''b''] \<and> distinct [''a'', ''z'']
   \<and> dynamo_to_python_attr Pair_example ''L'' = ''leaf''
   \<and> dynamo_to_python_attr Middle_example ''b'' = ''b''
   \<and> ordinary_class Pair_example \<and> ordinary_class Middle_example
   \<and> ordinary_class Outer_example
   \<and> (\<exists>a b leaf. getattr_class Outer_example ''a'' = Inr a
        \<and> getattr_schema a ''b'' = Inr b
        \<and> getattr_schema b ''leaf'' = Inr leaf
        \<and> attribute_path leaf = Inr [Some ''A'', Some ''b'', Some ''L''])"
proof -
  have l: "Attribute_init False (no_kwargs\<lparr>kw_attr_name := Some ''L''\<rparr>)
      = Inr (state_at [Some ''L''])"
    by (simp add: Attribute_init_def no_kwargs_def state_at_def)
  have w: "dynamo_to_python_attr Pair_example
        (wire_name (no_kwargs\<lparr>kw_attr_name := Some ''L''\<rparr>) ''leaf'') = ''leaf''"
      "dynamo_to_python_attr Middle_example (wire_name no_kwargs ''b'') = ''b''"
    by (simp_all add: dynamo_to_python_attr_def wire_name_def no_kwargs_def Pair_example_def
        Middle_example_def)
  have "\<exists>a b leaf. getattr_class Outer_example ''a'' = Inr a
        \<and> getattr_schema a ''b'' = Inr b
        \<and> getattr_schema b ''leaf'' = Inr leaf
        \<and> attribute_path leaf = Inr [Some ''A'', Some ''b'', Some ''L'']"
    using nested_attribute_path [OF l Pair_example_registered Middle_example_registered
        Outer_example_registered _ _ _ _ _ _ w examples_ordinary]
    by (simp add: wire_name_def no_kwargs_def)
  with l Pair_example_registered Middle_example_registered Outer_example_registered w
    examples_ordinary
  show ?thesis
    by (simp add: wire_name_def no_kwargs_def)
qed

text \<open>When two fields of a type share a wire name, the read of the first one reaches
  the local copy of the other: the paths are as above, but \<open>node.b\<close> is the copy of
  \<open>c\<close>.\<close>

lemma shared_wire_name_reads_last_field:
  "\<exists>Twin node.
     initialize_attributes ''Twin''
       [(''b'', MapData Pair_example (no_kwargs\<lparr>kw_attr_name := Some ''w''\<rparr>) []),
        (''c'', MapData MapAttribute_class (no_kwargs\<lparr>kw_attr_name := Some ''w''\<rparr>) [])]
       = Inr Twin
     \<and> make_attribute (MapData Twin no_kwargs []) = Inr (True, node)
     \<and> dynamo_to_python_attr Twin ''w'' = ''c''
     \<and> getattr_schema node ''b'' = Inr (MapSchema MapAttribute_class (state_at [Some ''w'']) [])"
  by (simp add: initialize_attributes_def initialize_member_def state_attr_name_def
      state_set_attr_name_def py_index_def state_at_def Pair_example_def MapAttribute_class_def
      Attribute_init_def no_kwargs_def insert_segment_def dynamo_to_python_attr_def)

text \<open>
  Claim C1, as the code has it. \<^verbatim>\<open>make_attribute\<close> on a nested node that is no longer
  in data mode returns \<^verbatim>\<open>False\<close>, leaves the node as it is and raises nothing; the
  registration of the enclosing type then stores the node under the field's name,
  maps the node's wire name to that field and leaves its paths alone.
\<close>

theorem make_attribute_converted_node:
  assumes "isinstance_MapAttribute node" and "\<not> is_attribute_container node"
    and "attr_name node = Inr (Some w)"
  shows "make_attribute node = Inr (False, node)
     \<and> initialize_member (name, node) (attrs, d2p)
         = Inr (AList.update name node attrs, AList.update w name d2p)"
  using assms by (cases node) (simp_all add: initialize_member_def)

theorem make_attribute_converted_node_witness:
  "isinstance_MapAttribute (MapSchema MapAttribute_class (state_at [Some ''x'']) [])
   \<and> \<not> is_attribute_container (MapSchema MapAttribute_class (state_at [Some ''x'']) [])
   \<and> attr_name (MapSchema MapAttribute_class (state_at [Some ''x'']) []) = Inr (Some ''x'')
   \<and> make_attribute (MapSchema MapAttribute_class (state_at [Some ''x'']) [])
       = Inr (False, MapSchema MapAttribute_class (state_at [Some ''x'']) [])
   \<and> initialize_member (''y'', MapSchema MapAttribute_class (state_at [Some ''x'']) []) ([], [])
       = Inr ([(''y'', MapSchema MapAttribute_class (state_at [Some ''x'']) [])],
              [(''x'', ''y'')])"
proof -
  have n: "attr_name (MapSchema MapAttribute_class (state_at [Some ''x'']) []) = Inr (Some ''x'')"
    by (simp add: state_attr_name_def py_index_def state_at_def)
  show ?thesis
    using make_attribute_converted_node
            [of "MapSchema MapAttribute_class (state_at [Some ''x'']) []" "''x''" "''y''" "[]" "[]"]
      n
    by simp
qed

text \<open>The same nested node under two enclosing declarations: the second conversion is
  no error, and both registrations succeed.\<close>

theorem second_conversion_is_silent:
  "initialize_attributes ''First'' [(''x'', MapData MapAttribute_class no_kwargs [])]
     = Inr (PyClass ''First'' [(''x'', MapSchema MapAttribute_class (state_at [Some ''x'']) [])] [])
   \<and> make_attribute (MapSchema MapAttribute_class (state_at [Some ''x'']) [])
       = Inr (False, MapSchema MapAttribute_class (state_at [Some ''x'']) [])
   \<and> initialize_attributes ''Second''
        [(''y'', MapSchema MapAttribute_class (state_at [Some ''x'']) [])]
       = Inr (PyClass ''Second''
                [(''y'', MapSchema MapAttribute_class (state_at [Some ''x'']) [])]
                [(''x'', ''y'')])"
  by (simp add: initialize_attributes_def initialize_member_def state_attr_name_def
      state_set_attr_name_def py_index_def state_at_def MapAttribute_class_def
      Attribute_init_def no_kwargs_def)




subsection \<open>Container construction and deserialization\<close>

lemma Doc_example_registered:
  "initialize_attributes ''Doc''
     [(''m'', MapData Inner_example (no_kwargs\<lparr>kw_attr_name := Some ''M''\<rparr>) []),
      (''x'', Attr NumberAttribute ((state_at [None])\<lparr>default_for_new := PyInt 5\<rparr>))]
   = Inr Doc_example"
  by (simp add: initialize_attributes_def initialize_member_def state_attr_name_def
      state_set_attr_name_def py_index_def state_at_def Inner_example_def Doc_example_def
      Attribute_init_def no_kwargs_def insert_segment_def)

lemma MapAttribute_deserialize_unfold:
  "MapAttribute_deserialize json_loads cls values =
     deserialize_finish cls (collect (map (deserialize_entry json_loads cls) values))"
  by (subst MapAttribute_deserialize.simps)
     (simp add: deserialize_entry_def deserialize_finish_def)

declare MapAttribute_deserialize.simps [simp del]

lemma Doc_init_empty:
  "MapAttribute_init Doc_example [] = Inr (PyMap ''Doc'' [] [(''x'', PyInt 5)])"
  by (simp add: Doc_example_def MapAttribute_init_with_def attribute_args_def
      AttributeContainer_init_def set_defaults_def setattr_container_def is_raw_def
      descriptor_set_def Attribute_set_def state_attr_name_def py_index_def state_at_def
      MapAttribute_set_attributes_def Inner_example_def)

lemma Doc_init_rehydrated:
  "MapAttribute_init Doc_example [(''_user_instantiated'', PyBool False)]
     = Inr (PyMap ''Doc'' [] [])"
  by (simp add: Doc_example_def MapAttribute_init_with_def attribute_args_def
      AttributeContainer_init_def set_defaults_def setattr_container_def is_raw_def
      descriptor_set_def Attribute_set_def state_attr_name_def py_index_def state_at_def
      MapAttribute_set_attributes_def Inner_example_def)

text \<open>
  Claim C2. \<^verbatim>\<open>MapAttribute.deserialize\<close> of a typed document builds the instance with
  \<^verbatim>\<open>type(self)(**deserialized_dict)\<close>, which leaves \<^verbatim>\<open>_user_instantiated\<close> at
  \<^verbatim>\<open>True\<close>: deserializing a payload without the field \<open>x\<close> gives an instance that
  holds the for-new default of \<open>x\<close>.
\<close>

theorem deserialize_applies_default_for_new:
  "MapAttribute_deserialize json_loads Doc_example [] = Inr (PyMap ''Doc'' [] [(''x'', PyInt 5)])"
  by (simp add: MapAttribute_deserialize_unfold deserialize_finish_def Doc_init_empty)
     (simp add: is_raw_def Doc_example_def)


lemma collect_append:
  "collect (xs @ ys) =
     (case collect xs of
        Inl e \<Rightarrow> Inl e
      | Inr a \<Rightarrow> (case collect ys of Inl e \<Rightarrow> Inl e | Inr b \<Rightarrow> Inr (a @ b)))"
proof (induction xs)
  case Nil
  show ?case by (simp split: sum.splits)
next
  case (Cons x xs)
  then show ?case by (cases x) (simp_all split: sum.splits)
qed

lemma deserialize_entry_unknown_name:
  assumes "\<not> is_raw cls" and "map_of (attributes cls) (dynamo_to_python_attr cls key) = None"
  shows "deserialize_entry json_loads cls (key, PyDict ((tag, payload) # rest)) = Inr None"
  using assms
  by (simp add: deserialize_entry_def get_value_for_deserialize_def get_deserialize_class_def)

lemma deserialize_entry_unknown_tag:
  assumes "is_raw cls" and "map_of DESERIALIZE_CLASS_MAP tag = None"
  shows "deserialize_entry json_loads cls (key, PyDict ((tag, payload) # rest)) = Inl ValueError"
  using assms
  by (auto simp: deserialize_entry_def get_value_for_deserialize_def get_deserialize_class_def
      get_class_for_deserialize_def)

text \<open>
  Claim C7. In the deserialization of a typed document, a wire field whose name
  resolves to no attribute of the schema is dropped: the result is that of the payload
  without the field, whatever stands before and after it. In the deserialization of a
  raw document, a wire field whose type tag is not in the decoding registry raises
  \<^verbatim>\<open>ValueError\<close>, unless a field before it has raised already. A wire value is a
  mapping that starts with its type tag.
\<close>

theorem deserialize_unknown_name_and_tag:
  "(\<not> is_raw cls \<and> map_of (attributes cls) (dynamo_to_python_attr cls key) = None \<longrightarrow>
      MapAttribute_deserialize json_loads cls
        (before @ (key, PyDict ((tag, payload) # rest)) # after)
      = MapAttribute_deserialize json_loads cls (before @ after))
   \<and> (is_raw cls \<and> map_of DESERIALIZE_CLASS_MAP tag = None \<longrightarrow>
      MapAttribute_deserialize json_loads cls
        (before @ (key, PyDict ((tag, payload) # rest)) # after)
      = (case collect (map (deserialize_entry json_loads cls) before) of
           Inl e \<Rightarrow> Inl e
         | Inr entries \<Rightarrow> Inl ValueError))"
proof (intro conjI impI)
  assume a: "\<not> is_raw cls \<and> map_of (attributes cls) (dynamo_to_python_attr cls key) = None"
  then have e: "deserialize_entry json_loads cls (key, PyDict ((tag, payload) # rest)) = Inr None"
    by (simp add: deserialize_entry_unknown_name)
  show "MapAttribute_deserialize json_loads cls
        (before @ (key, PyDict ((tag, payload) # rest)) # after)
      = MapAttribute_deserialize json_loads cls (before @ after)"
    by (simp add: MapAttribute_deserialize_unfold collect_append e deserialize_finish_def
        split: sum.splits)
next
  assume a: "is_raw cls \<and> map_of DESERIALIZE_CLASS_MAP tag = None"
  then have e: "deserialize_entry json_loads cls (key, PyDict ((tag, payload) # rest))
      = Inl ValueError"
    by (simp add: deserialize_entry_unknown_tag)
  show "MapAttribute_deserialize json_loads cls
        (before @ (key, PyDict ((tag, payload) # rest)) # after)
      = (case collect (map (deserialize_entry json_loads cls) before) of
           Inl e \<Rightarrow> Inl e
         | Inr entries \<Rightarrow> Inl ValueError)"
    by (simp add: MapAttribute_deserialize_unfold collect_append e deserialize_finish_def
        split: sum.splits)
qed

lemma Doc_deserialize_x:
  "MapAttribute_deserialize (\<lambda>s. Inr (PyInt 7)) Doc_example [(''x'', PyDict [(''N'', PyStr ''7'')])]
     = Inr (PyMap ''Doc'' [] [(''x'', PyInt 7)])"
  by (simp add: MapAttribute_deserialize_unfold deserialize_finish_def deserialize_entry_def
      get_value_for_deserialize_def get_deserialize_class_def dynamo_to_python_attr_def
      NumberAttribute_deserialize_def NULL_def
      Doc_example_def MapAttribute_init_with_def attribute_args_def
      AttributeContainer_init_def set_defaults_def setattr_container_def is_raw_def
      descriptor_set_def Attribute_set_def state_attr_name_def py_index_def state_at_def
      MapAttribute_set_attributes_def Inner_example_def)

theorem deserialize_unknown_name_and_tag_witness:
  "\<not> is_raw Doc_example
   \<and> map_of (attributes Doc_example) (dynamo_to_python_attr Doc_example ''unknown'') = None
   \<and> MapAttribute_deserialize (\<lambda>s. Inr (PyInt 7)) Doc_example
       [(''x'', PyDict [(''N'', PyStr ''7'')]), (''unknown'', PyDict [(''S'', PyStr ''u'')])]
     = Inr (PyMap ''Doc'' [] [(''x'', PyInt 7)])
   \<and> is_raw MapAttribute_class
   \<and> map_of DESERIALIZE_CLASS_MAP ''SS'' = None
   \<and> MapAttribute_deserialize (\<lambda>s. Inr (PyInt 7)) MapAttribute_class
       [(''x'', PyDict [(''N'', PyStr ''7'')]), (''tags'', PyDict [(''SS'', PySet {|''u''|})])]
     = Inl ValueError"
proof -
  have 1: "\<not> is_raw Doc_example"
    and 2: "map_of (attributes Doc_example) (dynamo_to_python_attr Doc_example ''unknown'') = None"
    by (simp_all add: is_raw_def Doc_example_def dynamo_to_python_attr_def)
  have 3: "is_raw MapAttribute_class" and 4: "map_of DESERIALIZE_CLASS_MAP ''SS'' = None"
    by (simp_all add: is_raw_def MapAttribute_class_def DESERIALIZE_CLASS_MAP_def LIST_SHORT_def
        NUMBER_SHORT_def STRING_SHORT_def BOOLEAN_def MAP_SHORT_def NULL_def)
  have 5: "collect (map (deserialize_entry (\<lambda>s. Inr (PyInt 7)) MapAttribute_class)
      [(''x'', PyDict [(''N'', PyStr ''7'')])]) = Inr [Some (''x'', PyInt 7)]"
    by (simp add: deserialize_entry_def get_value_for_deserialize_def get_deserialize_class_def
        get_class_for_deserialize_def dynamo_to_python_attr_def NumberAttribute_deserialize_def
        is_raw_def MapAttribute_class_def DESERIALIZE_CLASS_MAP_def LIST_SHORT_def
        NUMBER_SHORT_def STRING_SHORT_def BOOLEAN_def MAP_SHORT_def NULL_def)
  show ?thesis
    using deserialize_unknown_name_and_tag
            [of Doc_example "''unknown''" "\<lambda>s. Inr (PyInt 7)"
               "[(''x'', PyDict [(''N'', PyStr ''7'')])]" "''S''" "PyStr ''u''" "[]" "[]"]
          deserialize_unknown_name_and_tag
            [of MapAttribute_class "''tags''" "\<lambda>s. Inr (PyInt 7)"
               "[(''x'', PyDict [(''N'', PyStr ''7'')])]" "''SS''" "PySet {|''u''|}" "[]" "[]"]
          1 2 3 4 5 Doc_deserialize_x
    by simp
qed

lemma MapAttribute_init_instance:
  assumes "MapAttribute_init c kvs = Inr v"
  shows "\<exists>kw vs. v = PyMap (cls_name c) kw vs"
  using assms
  by (cases c) (auto simp: MapAttribute_init_with_def Let_def split: sum.splits if_splits)

text \<open>
  Claim C9. When a plain mapping is assigned to a schema-mode \<^verbatim>\<open>MapAttribute\<close> field
  of a container instance and the assignment returns, the value stored in the
  container's \<^verbatim>\<open>attribute_values\<close> under the field's name is the instance of the
  field's own class that the constructor builds from the entries of the mapping, not
  the mapping.
\<close>

theorem mapping_assigned_is_stored_as_instance:
  assumes "attribute_set (MapSchema c st locals) cls attribute_values (PyDict kvs)
             = Inr attribute_values'"
  shows "\<exists>w kw vs. attr_name (MapSchema c st locals) = Inr (Some w)
     \<and> MapAttribute_init c kvs = Inr (PyMap (cls_name c) kw vs)
     \<and> map_of attribute_values' (dynamo_to_python_attr cls w) = Some (PyMap (cls_name c) kw vs)
     \<and> map_of attribute_values' (dynamo_to_python_attr cls w) \<noteq> Some (PyDict kvs)"
proof (cases "MapAttribute_init c kvs")
  case (Inl e)
  with assms show ?thesis
    by (simp add: attribute_set_def descriptor_set_def)
next
  case (Inr v)
  then obtain kw vs where v: "v = PyMap (cls_name c) kw vs"
    using MapAttribute_init_instance by blast
  from assms Inr obtain w where w: "state_attr_name st = Inr (Some w)"
    and s: "attribute_values' = AList.update (dynamo_to_python_attr cls w) v attribute_values"
    by (auto simp: attribute_set_def descriptor_set_def Attribute_set_def
        dynamo_to_python_attr_def split: sum.splits option.splits)
  show ?thesis
    using Inr v w s by (simp add: update_conv')
qed

theorem mapping_assigned_is_stored_as_instance_witness:
  "attribute_set
     (MapSchema Inner_example (state_at [Some ''M''])
        [(''leaf'', Attr NumberAttribute (state_at [Some ''M'', Some ''L'']))])
     Doc_example [] (PyDict [(''leaf'', PyInt 3)])
     = Inr [(''m'', PyMap ''Inner'' [] [(''leaf'', PyInt 3)])]
   \<and> (\<exists>w kw vs. attr_name (MapSchema Inner_example (state_at [Some ''M''])
           [(''leaf'', Attr NumberAttribute (state_at [Some ''M'', Some ''L'']))]) = Inr (Some w)
       \<and> MapAttribute_init Inner_example [(''leaf'', PyInt 3)]
           = Inr (PyMap (cls_name Inner_example) kw vs)
       \<and> map_of [(''m'', PyMap ''Inner'' [] [(''leaf'', PyInt 3)])]
           (dynamo_to_python_attr Doc_example w) = Some (PyMap (cls_name Inner_example) kw vs)
       \<and> map_of [(''m'', PyMap ''Inner'' [] [(''leaf'', PyInt 3)])]
           (dynamo_to_python_attr Doc_example w) \<noteq> Some (PyDict [(''leaf'', PyInt 3)]))"
proof -
  have s: "attribute_set
     (MapSchema Inner_example (state_at [Some ''M''])
        [(''leaf'', Attr NumberAttribute (state_at [Some ''M'', Some ''L'']))])
     Doc_example [] (PyDict [(''leaf'', PyInt 3)])
     = Inr [(''m'', PyMap ''Inner'' [] [(''leaf'', PyInt 3)])]"
    by (simp add: attribute_set_def descriptor_set_def Attribute_set_def
      Inner_example_def Doc_example_def MapAttribute_init_with_def attribute_args_def
      AttributeContainer_init_def set_defaults_def setattr_container_def is_raw_def
      state_attr_name_def py_index_def state_at_def MapAttribute_set_attributes_def)
  show ?thesis
    using mapping_assigned_is_stored_as_instance [OF s] s by simp
qed

end
